theory Spec2Isabelle
  imports Complex_Main
begin

section \<open>JavaScript values used by the stock-summary controller\<close>

text \<open>
  Numbers are modelled as rationals (the controller only copies and compares amounts, and
  the one quotient it rounds is taken of two integers; \<open>NaN\<close> and the infinities do not
  occur in the documents). An absent property
  (\<open>undefined\<close>) is \<open>None\<close>. A date is its time value in milliseconds since the epoch;
  \<open>None\<close> is an absent date, which \<open>new Date(undefined)\<close> turns into the Invalid Date,
  and every comparison with the Invalid Date is false. The clock is read once per
  request and handed to the operations as \<open>today\<close> or \<open>now\<close>. Calendar arithmetic is done
  in UTC.
\<close>

type_synonym js_date = "int option"

typedecl jewelry_item

text \<open>\<open>x || d\<close> on numbers: \<open>undefined\<close> and \<open>0\<close> are falsy.\<close>

definition num_or :: "rat option \<Rightarrow> rat \<Rightarrow> rat" where
  "num_or x d = (case x of None \<Rightarrow> d | Some n \<Rightarrow> if n = 0 then d else n)"

text \<open>Truthiness of a string property: \<open>undefined\<close> and the empty string are falsy.\<close>

definition truthy :: "string option \<Rightarrow> bool" where
  "truthy x = (case x of None \<Rightarrow> False | Some s \<Rightarrow> s \<noteq> [])"

definition str_or :: "string option \<Rightarrow> string \<Rightarrow> string" where
  "str_or x d = (case x of None \<Rightarrow> d | Some s \<Rightarrow> if s = [] then d else s)"

text \<open>\<open>a < b\<close> on a date read from a document and the clock.\<close>

definition date_lt :: "js_date \<Rightarrow> int \<Rightarrow> bool" where
  "date_lt d t = (case d of None \<Rightarrow> False | Some x \<Rightarrow> x < t)"

definition ms_per_day :: int where
  "ms_per_day = 1000 * 60 * 60 * 24"

text \<open>\<open>Math.ceil(a / b)\<close> for integers \<open>a\<close> and \<open>b\<close>.\<close>

definition ceil_div :: "int \<Rightarrow> int \<Rightarrow> int" where
  "ceil_div a b = - ((- a) div b)"

text \<open>\<open>Math.ceil((today - dueDate) / (1000 * 60 * 60 * 24))\<close>.\<close>

definition days_between :: "int \<Rightarrow> js_date \<Rightarrow> int" where
  "days_between today d = (case d of None \<Rightarrow> 0 | Some x \<Rightarrow> ceil_div (today - x) ms_per_day)"

text \<open>A time value outside the range of \<open>Date\<close> becomes the Invalid Date.\<close>

definition timeClip :: "int \<Rightarrow> js_date" where
  "timeClip t = (if \<bar>t\<bar> \<le> 8640000000000000 then Some t else None)"

text \<open>Day number of a civil date and back (proleptic Gregorian calendar, months 1 to 12).\<close>

definition days_from_civil :: "int \<Rightarrow> int \<Rightarrow> int \<Rightarrow> int" where
  "days_from_civil y0 m d =
    (let y = (if m \<le> 2 then y0 - 1 else y0);
         era = y div 400;
         yoe = y - era * 400;
         doy = (153 * (if m > 2 then m - 3 else m + 9) + 2) div 5 + d - 1;
         doe = yoe * 365 + yoe div 4 - yoe div 100 + doy
     in era * 146097 + doe - 719468)"

definition civil_from_days :: "int \<Rightarrow> int \<times> int \<times> int" where
  "civil_from_days z0 =
    (let z = z0 + 719468;
         era = z div 146097;
         doe = z - era * 146097;
         yoe = (doe - doe div 1460 + doe div 36524 - doe div 146096) div 365;
         doy = doe - (365 * yoe + yoe div 4 - yoe div 100);
         mp = (5 * doy + 2) div 153;
         d = doy - (153 * mp + 2) div 5 + 1;
         m = (if mp < 10 then mp + 3 else mp - 9);
         y = yoe + era * 400
     in (if m \<le> 2 then y + 1 else y, m, d))"

text \<open>
  \<open>d.setMonth(d.getMonth() + 12)\<close>: the first day of the same month one year later, plus
  the day of the month minus one, at the same time of day.
\<close>

definition setMonth_plus12 :: "js_date \<Rightarrow> js_date" where
  "setMonth_plus12 dt =
    (case dt of None \<Rightarrow> None
     | Some t \<Rightarrow>
        (case civil_from_days (t div ms_per_day) of (y, m, d) \<Rightarrow>
           timeClip ((days_from_civil (y + 1) m 1 + d - 1) * ms_per_day + t mod ms_per_day)))"

text \<open>\<open>d.setDate(d.getDate() + 1)\<close>.\<close>

definition setDate_plus1 :: "js_date \<Rightarrow> js_date" where
  "setDate_plus1 dt = (case dt of None \<Rightarrow> None | Some t \<Rightarrow> timeClip (t + ms_per_day))"

text \<open>\<open>a >= b\<close> and \<open>a < b\<close> on two dates.\<close>

definition date_ge2 :: "js_date \<Rightarrow> js_date \<Rightarrow> bool" where
  "date_ge2 a b = (case (a, b) of (Some x, Some y) \<Rightarrow> x \<ge> y | _ \<Rightarrow> False)"

definition date_lt2 :: "js_date \<Rightarrow> js_date \<Rightarrow> bool" where
  "date_lt2 a b = (case (a, b) of (Some x, Some y) \<Rightarrow> x < y | _ \<Rightarrow> False)"

text \<open>\<open>s.toLowerCase()\<close> on ASCII text: the letters A to Z get bit 5 set.\<close>

definition lower_char :: "char \<Rightarrow> char" where
  "lower_char c =
    (case c of Char b0 b1 b2 b3 b4 b5 b6 b7 \<Rightarrow>
       if 65 \<le> (of_char c :: nat) \<and> (of_char c :: nat) \<le> 90
       then Char b0 b1 b2 b3 b4 True b6 b7 else c)"

definition toLowerCase :: "string \<Rightarrow> string" where
  "toLowerCase s = map lower_char s"

text \<open>
  \<open>s.startsWith(x)\<close> and \<open>s.includes(x)\<close>; the latter is named \<open>str_includes\<close> because
  \<open>includes\<close> is a reserved word of Isabelle.
\<close>

fun startsWith :: "string \<Rightarrow> string \<Rightarrow> bool" where
  "startsWith s [] = True"
| "startsWith [] (x # xs) = False"
| "startsWith (c # s) (x # xs) = (c = x \<and> startsWith s xs)"

fun str_includes :: "string \<Rightarrow> string \<Rightarrow> bool" where
  "str_includes [] x = (x = [])"
| "str_includes (c # s) x = (startsWith (c # s) x \<or> str_includes s x)"

text \<open>\<open>xs.slice(start, end)\<close>, negative indices counting from the end.\<close>

definition js_slice :: "'a list \<Rightarrow> int \<Rightarrow> int \<Rightarrow> 'a list" where
  "js_slice xs start fin =
    (let len = int (length xs);
         k = (if start < 0 then max (len + start) 0 else min start len);
         final = (if fin < 0 then max (len + fin) 0 else min fin len)
     in take (nat (final - k)) (drop (nat k) xs))"

text \<open>\<open>xs.findIndex(p)\<close>, with \<open>None\<close> for \<open>-1\<close>.\<close>

fun findIndex :: "('a \<Rightarrow> bool) \<Rightarrow> 'a list \<Rightarrow> nat option" where
  "findIndex p [] = None"
| "findIndex p (x # xs) =
    (if p x then Some 0 else (case findIndex p xs of None \<Rightarrow> None | Some i \<Rightarrow> Some (Suc i)))"

section \<open>Documents\<close>

text \<open>The populated customer of a voucher.\<close>

record customer_ref =
  c_id :: "string option"
  c_fullName :: "string option"
  c_phoneNumber :: "string option"
  c_address :: "string option"

record voucher =
  v_id :: string
  v_billNo :: "string option"
  v_customer :: "customer_ref option"
  v_customerId :: "string option"
  v_customerName :: "string option"
  v_customerPhone :: "string option"
  v_jewelType :: "string option"
  v_grossWeight :: "rat option"
  v_netWeight :: "rat option"
  v_loanAmount :: "rat option"
  v_finalLoanAmount :: "rat option"
  v_interestRate :: "rat option"
  v_interestAmount :: "rat option"
  v_overallLoanAmount :: "rat option"
  v_disbursementDate :: js_date
  v_dueDate :: js_date
  v_status :: "string option"
  v_repaidAmount :: "rat option"
  v_balanceAmount :: "rat option"
  v_paymentProgress :: "rat option"
  v_lastPaymentDate :: js_date
  v_monthsPaid :: "rat option"
  v_totalInterestPaid :: "rat option"
  v_closedDate :: js_date
  v_jewelryItems :: "jewelry_item list option"

text \<open>A transaction of a day-book and the two transaction lists a day-book may hold.\<close>

record transaction =
  t_voucherId :: "string option"
  t_billNo :: "string option"
  t_customerId :: "string option"
  t_customerName :: "string option"
  t_jewelType :: "string option"
  t_netWeight :: "rat option"
  t_amount :: "rat option"
  t_interestRate :: "rat option"
  t_createdAt :: js_date

record ledger_section =
  transactions :: "transaction list option"

record dayBook =
  db_id :: string
  db_date :: js_date
  db_loansDisbursed :: "ledger_section option"
  db_closedLoans :: "ledger_section option"

text \<open>
  The derived loan, with the fields the controller writes. \<open>loan_id\<close> is the \<open>_id\<close> of
  the stored sub-document; the readers do not set it.
\<close>

record loan =
  loan_id :: "string option"
  billNo :: "string option"
  customerId :: string
  customerName :: string
  customerPhone :: string
  customerAddress :: string
  jewelType :: string
  grossWeight :: rat
  netWeight :: rat
  loanAmount :: rat
  finalLoanAmount :: rat
  interestRate :: rat
  interestAmount :: rat
  overallLoanAmount :: rat
  disbursementDate :: js_date
  dueDate :: js_date
  status :: "string option"
  loanStatus :: string
  repaidAmount :: rat
  balanceAmount :: "rat option"
  paymentProgress :: rat
  daysOverdue :: int
  lastPaymentDate :: js_date
  monthsPaid :: "rat option"
  totalInterestPaid :: "rat option"
  closedDate :: js_date
  voucherId :: "string option"
  sourceType :: string
  sourceId :: "string option"
  jewelryItems :: "jewelry_item list"

record snapshot =
  loans :: "loan list"
  lastSyncedAt :: int
  lastUpdated :: int
  syncStatus :: string
  dataVersion :: string

text \<open>
  The aggregate fields a snapshot document exposes (\<open>stockSummary.totalLoans\<close> and so on).
  The StockSummary model that computes them is not among the sources, so the operations
  take the computation as the parameter \<open>aggr\<close>.
\<close>

record aggregates =
  totalLoans :: rat
  activeLoans :: rat
  overdueLoans :: rat
  closedLoans :: rat
  totalLoanAmount :: rat
  overdueRate :: rat
  recordCount :: rat

section \<open>The document store\<close>

datatype store_op =
  VoucherCount | VoucherFind | DayBookFind | SummaryFindOne | SummaryDeleteMany | SummarySave

text \<open>
  \<open>vouchers\<close> and \<open>dayBooks\<close> are the collections in the order their queries return them
  (vouchers with the customer populated, by disbursement date descending; day-books by
  date descending). \<open>failing\<close> lists the store operations that throw.
\<close>

record world =
  vouchers :: "voucher list"
  dayBooks :: "dayBook list"
  summaries :: "snapshot list"
  failing :: "store_op list"

definition fails :: "world \<Rightarrow> store_op \<Rightarrow> bool" where
  "fails w op = (op \<in> set (failing w))"

text \<open>
  \<open>StockSummary.findOne().sort({ lastUpdated: -1 })\<close>: the position of the first snapshot
  with the greatest \<open>lastUpdated\<close>.
\<close>

fun latestIndex :: "snapshot list \<Rightarrow> nat option" where
  "latestIndex [] = None"
| "latestIndex (s # ss) =
    (case latestIndex ss of
       None \<Rightarrow> Some 0
     | Some j \<Rightarrow> if lastUpdated (ss ! j) > lastUpdated s then Some (Suc j) else Some 0)"

datatype 'a response =
  Json200 'a | Status400 string | Status404 string | Status500 string

section \<open>Loan source readers\<close>

text \<open>\<open>voucher.customer?.f\<close> for a field \<open>f\<close> of the populated customer.\<close>

definition cust :: "voucher \<Rightarrow> (customer_ref \<Rightarrow> string option) \<Rightarrow> string option" where
  "cust v f = (case v_customer v of None \<Rightarrow> None | Some c \<Rightarrow> f c)"

text \<open>\<open>voucher.balanceAmount || voucher.overallLoanAmount\<close>.\<close>

definition balance_or :: "rat option \<Rightarrow> rat option \<Rightarrow> rat option" where
  "balance_or b overall = (case b of None \<Rightarrow> overall | Some n \<Rightarrow> if n = 0 then overall else Some n)"

text \<open>The callback of \<open>vouchers.map\<close> in \<open>createOrUpdateStockSummary\<close>.\<close>

definition voucherToLoan :: "int \<Rightarrow> voucher \<Rightarrow> loan" where
  "voucherToLoan today v =
    (let isOverdue = (date_lt (v_dueDate v) today \<and> v_status v \<noteq> Some ''Closed'');
         days = (if isOverdue then days_between today (v_dueDate v) else 0)
     in \<lparr> loan_id = None,
          billNo = v_billNo v,
          customerId = str_or (cust v c_id) (str_or (v_customerId v) ''unknown''),
          customerName = str_or (cust v c_fullName) (str_or (v_customerName v) ''Unknown Customer''),
          customerPhone = str_or (cust v c_phoneNumber) (str_or (v_customerPhone v) ''N/A''),
          customerAddress = str_or (cust v c_address) ''N/A'',
          jewelType = str_or (v_jewelType v) ''gold'',
          grossWeight = num_or (v_grossWeight v) 0,
          netWeight = num_or (v_netWeight v) 0,
          loanAmount = num_or (v_loanAmount v) 0,
          finalLoanAmount = num_or (v_finalLoanAmount v) 0,
          interestRate = num_or (v_interestRate v) 0,
          interestAmount = num_or (v_interestAmount v) 0,
          overallLoanAmount = num_or (v_overallLoanAmount v) 0,
          disbursementDate = v_disbursementDate v,
          dueDate = v_dueDate v,
          status = v_status v,
          loanStatus =
            (if isOverdue then ''overdue''
             else if v_status v = Some ''Closed'' then ''closed''
             else if v_status v = Some ''Active'' \<or> v_status v = Some ''Partial'' then ''active''
             else ''inactive''),
          repaidAmount = num_or (v_repaidAmount v) 0,
          balanceAmount = balance_or (v_balanceAmount v) (v_overallLoanAmount v),
          paymentProgress = num_or (v_paymentProgress v) 0,
          daysOverdue = days,
          lastPaymentDate = v_lastPaymentDate v,
          monthsPaid = Some (num_or (v_monthsPaid v) 0),
          totalInterestPaid = Some (num_or (v_totalInterestPaid v) 0),
          closedDate = v_closedDate v,
          voucherId = Some (v_id v),
          sourceType = ''voucher'',
          sourceId = Some (v_id v),
          jewelryItems = (case v_jewelryItems v of None \<Rightarrow> [] | Some items \<Rightarrow> items) \<rparr>)"

text \<open>
  The callback of \<open>vouchers.map\<close> in \<open>getStockSummary\<close>: the same object without
  \<open>lastPaymentDate\<close>, \<open>monthsPaid\<close>, \<open>totalInterestPaid\<close> and \<open>closedDate\<close>.
\<close>

definition voucherToLoanLazy :: "int \<Rightarrow> voucher \<Rightarrow> loan" where
  "voucherToLoanLazy today v =
    (let isOverdue = (date_lt (v_dueDate v) today \<and> v_status v \<noteq> Some ''Closed'');
         days = (if isOverdue then days_between today (v_dueDate v) else 0)
     in \<lparr> loan_id = None,
          billNo = v_billNo v,
          customerId = str_or (cust v c_id) (str_or (v_customerId v) ''unknown''),
          customerName = str_or (cust v c_fullName) (str_or (v_customerName v) ''Unknown Customer''),
          customerPhone = str_or (cust v c_phoneNumber) (str_or (v_customerPhone v) ''N/A''),
          customerAddress = str_or (cust v c_address) ''N/A'',
          jewelType = str_or (v_jewelType v) ''gold'',
          grossWeight = num_or (v_grossWeight v) 0,
          netWeight = num_or (v_netWeight v) 0,
          loanAmount = num_or (v_loanAmount v) 0,
          finalLoanAmount = num_or (v_finalLoanAmount v) 0,
          interestRate = num_or (v_interestRate v) 0,
          interestAmount = num_or (v_interestAmount v) 0,
          overallLoanAmount = num_or (v_overallLoanAmount v) 0,
          disbursementDate = v_disbursementDate v,
          dueDate = v_dueDate v,
          status = v_status v,
          loanStatus =
            (if isOverdue then ''overdue''
             else if v_status v = Some ''Closed'' then ''closed''
             else if v_status v = Some ''Active'' \<or> v_status v = Some ''Partial'' then ''active''
             else ''inactive''),
          repaidAmount = num_or (v_repaidAmount v) 0,
          balanceAmount = balance_or (v_balanceAmount v) (v_overallLoanAmount v),
          paymentProgress = num_or (v_paymentProgress v) 0,
          daysOverdue = days,
          lastPaymentDate = None,
          monthsPaid = None,
          totalInterestPaid = None,
          closedDate = None,
          voucherId = Some (v_id v),
          sourceType = ''voucher'',
          sourceId = Some (v_id v),
          jewelryItems = (case v_jewelryItems v of None \<Rightarrow> [] | Some items \<Rightarrow> items) \<rparr>)"

text \<open>\<open>transaction.voucherId && transaction.billNo\<close>.\<close>

definition qualifies :: "transaction \<Rightarrow> bool" where
  "qualifies t = (truthy (t_voucherId t) \<and> truthy (t_billNo t))"

text \<open>\<open>new Date(transaction.createdAt || dayBook.date)\<close>.\<close>

definition disbursedAt :: "dayBook \<Rightarrow> transaction \<Rightarrow> js_date" where
  "disbursedAt db t = (case t_createdAt t of Some c \<Rightarrow> Some c | None \<Rightarrow> db_date db)"

text \<open>The object pushed for a qualifying transaction of \<open>loansDisbursed\<close>.\<close>

definition disbursedLoan :: "int \<Rightarrow> dayBook \<Rightarrow> transaction \<Rightarrow> loan" where
  "disbursedLoan today db t =
    (let disbursement = disbursedAt db t;
         due = setMonth_plus12 disbursement;
         isOverdue = date_lt due today;
         days = (if isOverdue then days_between today due else 0)
     in \<lparr> loan_id = None,
          billNo = t_billNo t,
          customerId = str_or (t_customerId t) ''unknown'',
          customerName = str_or (t_customerName t) ''Unknown Customer'',
          customerPhone = ''N/A'',
          customerAddress = ''N/A'',
          jewelType = str_or (t_jewelType t) ''gold'',
          grossWeight = num_or (t_netWeight t) 0,
          netWeight = num_or (t_netWeight t) 0,
          loanAmount = num_or (t_amount t) 0,
          finalLoanAmount = num_or (t_amount t) 0,
          interestRate = num_or (t_interestRate t) 0,
          interestAmount = 0,
          overallLoanAmount = num_or (t_amount t) 0,
          disbursementDate = disbursement,
          dueDate = due,
          status = Some (if isOverdue then ''Overdue'' else ''Active''),
          loanStatus = (if isOverdue then ''overdue'' else ''active''),
          repaidAmount = 0,
          balanceAmount = Some (num_or (t_amount t) 0),
          paymentProgress = 0,
          daysOverdue = days,
          lastPaymentDate = None,
          monthsPaid = None,
          totalInterestPaid = None,
          closedDate = None,
          voucherId = t_voucherId t,
          sourceType = ''daybook'',
          sourceId = Some (db_id db),
          jewelryItems = [] \<rparr>)"

text \<open>The object pushed for a qualifying transaction of \<open>closedLoans\<close>.\<close>

definition closedLoan :: "dayBook \<Rightarrow> transaction \<Rightarrow> loan" where
  "closedLoan db t =
    (let disbursement = disbursedAt db t;
         due = setMonth_plus12 disbursement
     in \<lparr> loan_id = None,
          billNo = t_billNo t,
          customerId = str_or (t_customerId t) ''unknown'',
          customerName = str_or (t_customerName t) ''Unknown Customer'',
          customerPhone = ''N/A'',
          customerAddress = ''N/A'',
          jewelType = str_or (t_jewelType t) ''gold'',
          grossWeight = num_or (t_netWeight t) 0,
          netWeight = num_or (t_netWeight t) 0,
          loanAmount = num_or (t_amount t) 0,
          finalLoanAmount = num_or (t_amount t) 0,
          interestRate = num_or (t_interestRate t) 0,
          interestAmount = 0,
          overallLoanAmount = num_or (t_amount t) 0,
          disbursementDate = disbursement,
          dueDate = due,
          status = Some ''Closed'',
          loanStatus = ''closed'',
          repaidAmount = num_or (t_amount t) 0,
          balanceAmount = Some 0,
          paymentProgress = 100,
          daysOverdue = 0,
          lastPaymentDate = None,
          monthsPaid = None,
          totalInterestPaid = None,
          closedDate = db_date db,
          voucherId = t_voucherId t,
          sourceType = ''daybook'',
          sourceId = Some (db_id db),
          jewelryItems = [] \<rparr>)"

text \<open>
  \<open>transactions.forEach(transaction => { if (...) loans.push(...) })\<close>: the loans array
  is threaded through as \<open>acc\<close>.
\<close>

fun pushQualifying :: "(transaction \<Rightarrow> loan) \<Rightarrow> transaction list \<Rightarrow> loan list \<Rightarrow> loan list" where
  "pushQualifying mk [] acc = acc"
| "pushQualifying mk (t # ts) acc =
    pushQualifying mk ts (if qualifies t then acc @ [mk t] else acc)"

text \<open>\<open>dayBook.s && dayBook.s.transactions\<close> for a section \<open>s\<close>.\<close>

definition sectionTransactions :: "ledger_section option \<Rightarrow> transaction list option" where
  "sectionTransactions s = (case s of None \<Rightarrow> None | Some sec \<Rightarrow> transactions sec)"

text \<open>The body of \<open>dayBooks.forEach\<close>.\<close>

definition extractDayBook :: "int \<Rightarrow> dayBook \<Rightarrow> loan list \<Rightarrow> loan list" where
  "extractDayBook today db acc =
    (let acc1 = (case sectionTransactions (db_loansDisbursed db) of
                   None \<Rightarrow> acc
                 | Some ts \<Rightarrow> pushQualifying (disbursedLoan today db) ts acc)
     in (case sectionTransactions (db_closedLoans db) of
           None \<Rightarrow> acc1
         | Some ts \<Rightarrow> pushQualifying (closedLoan db) ts acc1))"

text \<open>A fault of the day-book query is caught and gives no loans.\<close>

definition extractLoanDataFromDayBooks :: "int \<Rightarrow> world \<Rightarrow> loan list" where
  "extractLoanDataFromDayBooks today w =
    (if fails w DayBookFind then [] else fold (extractDayBook today) (dayBooks w) [])"

section \<open>Synchronisation\<close>

text \<open>
  The inner \<open>try\<close> of \<open>createOrUpdateStockSummary\<close>: count the vouchers, read and map them
  when there are any; a fault of either call is caught and leaves \<open>loans\<close> empty.
\<close>

definition tryVouchers :: "(int \<Rightarrow> voucher \<Rightarrow> loan) \<Rightarrow> int \<Rightarrow> world \<Rightarrow> loan list" where
  "tryVouchers mk today w =
    (if fails w VoucherCount then []
     else if length (vouchers w) > 0
          then (if fails w VoucherFind then [] else map (mk today) (vouchers w))
          else [])"

text \<open>\<open>if (loans.length === 0) loans = await extractLoanDataFromDayBooks()\<close>.\<close>

definition chooseLoans :: "(int \<Rightarrow> voucher \<Rightarrow> loan) \<Rightarrow> int \<Rightarrow> world \<Rightarrow> loan list" where
  "chooseLoans mk today w =
    (let ls = tryVouchers mk today w
     in if length ls = 0 then extractLoanDataFromDayBooks today w else ls)"

text \<open>
  Modelled from the spec: the schema of the snapshot document is not among the sources;
  a snapshot is current by its most recent \<open>lastUpdated\<close>, which a new document gets from
  the time of its creation. The rest is
  \<open>new StockSummary({ loans, lastSyncedAt: new Date(), syncStatus: 'synced',
  dataVersion: '1.0' })\<close> as the controller writes it.
\<close>

definition newStockSummary :: "int \<Rightarrow> loan list \<Rightarrow> snapshot" where
  "newStockSummary now ls =
    \<lparr> loans = ls, lastSyncedAt = now, lastUpdated = now,
      syncStatus = ''synced'', dataVersion = ''1.0'' \<rparr>"

record sync_body =
  sb_count :: nat
  sb_aggregates :: aggregates
  sb_lastUpdated :: int
  sb_dataSource :: string

definition createOrUpdateStockSummary ::
  "(loan list \<Rightarrow> aggregates) \<Rightarrow> int \<Rightarrow> world \<Rightarrow> world \<times> sync_body response" where
  "createOrUpdateStockSummary aggr now w =
    (let ls = chooseLoans voucherToLoan now w
     in if fails w SummaryDeleteMany
        then (w, Status500 ''Error creating/updating stock summary'')
        else
          (let w1 = w\<lparr>summaries := []\<rparr>;
               stockSummary = newStockSummary now ls
           in if fails w SummarySave
              then (w1, Status500 ''Error creating/updating stock summary'')
              else (w1\<lparr>summaries := [stockSummary]\<rparr>,
                    Json200 \<lparr> sb_count = length ls,
                              sb_aggregates = aggr ls,
                              sb_lastUpdated = lastUpdated stockSummary,
                              sb_dataSource =
                                (if length ls > 0 then sourceType (hd ls) else ''unknown'') \<rparr>)))"

section \<open>Query and filter engine\<close>

text \<open>
  The query string of \<open>getStockSummary\<close>. \<open>dateFilter\<close> is given by the date its text
  parses to (\<open>Some None\<close> when the text is no date), and \<open>page\<close> and \<open>limit\<close> by the
  integers their texts denote; \<open>None\<close> is a parameter that was not sent, or for the
  four filters one that was sent empty (the empty string is falsy).
\<close>

record query_params =
  search :: "string option"
  dateFilter :: "js_date option"
  statusFilter :: "string option"
  jewelTypeFilter :: "string option"
  page :: "int option"
  limit :: "int option"

text \<open>The callback of the search filter; \<open>s\<close> is \<open>search\<close>.\<close>

definition searchMatches :: "string \<Rightarrow> loan \<Rightarrow> bool" where
  "searchMatches s l =
    (let searchLower = toLowerCase s
     in (truthy (billNo l) \<and> str_includes (toLowerCase (str_or (billNo l) [])) searchLower) \<or>
        (customerName l \<noteq> [] \<and> str_includes (toLowerCase (customerName l)) searchLower) \<or>
        (customerId l \<noteq> [] \<and> str_includes (toLowerCase (customerId l)) searchLower) \<or>
        (customerPhone l \<noteq> [] \<and> str_includes (customerPhone l) s))"

text \<open>The callback of the date filter; \<open>d\<close> is \<open>new Date(dateFilter)\<close>.\<close>

definition dateMatches :: "js_date \<Rightarrow> loan \<Rightarrow> bool" where
  "dateMatches d l =
    (let filterDate = d;
         nextDay = setDate_plus1 filterDate;
         loanDate = disbursementDate l
     in date_ge2 loanDate filterDate \<and> date_lt2 loanDate nextDay)"

text \<open>The four \<open>if\<close> blocks that narrow \<open>filteredLoans\<close>, in the order of the source.\<close>

definition applyFilters :: "query_params \<Rightarrow> loan list \<Rightarrow> loan list" where
  "applyFilters q ls =
    (let f1 = (if truthy (search q) then filter (searchMatches (str_or (search q) [])) ls else ls);
         f2 = (case dateFilter q of None \<Rightarrow> f1 | Some d \<Rightarrow> filter (dateMatches d) f1);
         f3 = (if truthy (statusFilter q) \<and> statusFilter q \<noteq> Some ''all''
               then (if statusFilter q = Some ''active''
                     then filter (\<lambda>l. loanStatus l = ''active'') f2
                     else if statusFilter q = Some ''overdue''
                     then filter (\<lambda>l. loanStatus l = ''overdue'') f2
                     else if statusFilter q = Some ''closed''
                     then filter (\<lambda>l. loanStatus l = ''closed'') f2
                     else f2)
               else f2);
         f4 = (if truthy (jewelTypeFilter q) \<and> jewelTypeFilter q \<noteq> Some ''all''
               then filter (\<lambda>l. Some (jewelType l) = jewelTypeFilter q) f3
               else f3)
     in f4)"

text \<open>The defaults of the destructuring: \<open>page = 1, limit = 100\<close>.\<close>

definition pageOf :: "query_params \<Rightarrow> int" where
  "pageOf q = (case page q of None \<Rightarrow> 1 | Some p \<Rightarrow> p)"

definition limitOf :: "query_params \<Rightarrow> int" where
  "limitOf q = (case limit q of None \<Rightarrow> 100 | Some n \<Rightarrow> n)"

text \<open>\<open>filteredLoans.slice(startIndex, startIndex + parseInt(limit))\<close>.\<close>

definition paginate :: "query_params \<Rightarrow> loan list \<Rightarrow> loan list" where
  "paginate q filteredLoans =
    (let startIndex = (pageOf q - 1) * limitOf q
     in js_slice filteredLoans startIndex (startIndex + limitOf q))"

record filtered_stats =
  fs_totalLoans :: nat
  fs_activeLoans :: nat
  fs_overdueLoans :: nat
  fs_closedLoans :: nat
  fs_totalActiveLoanAmount :: rat
  fs_totalOverdueLoanAmount :: rat
  fs_totalLoanAmount :: rat
  fs_overdueRate :: int

text \<open>\<open>xs.reduce((sum, loan) => sum + (loan.finalLoanAmount || 0), 0)\<close>.\<close>

definition sumFinal :: "loan list \<Rightarrow> rat" where
  "sumFinal ls = fold (\<lambda>l sum. sum + finalLoanAmount l) ls 0"

text \<open>
  \<open>Math.round(x)\<close>: halves go up. It is applied to exact rationals here; the engine
  rounds the double it has computed, which can lie just below a half where the exact
  value is the half (23 overdue of 40 give 57 there and 58 here).
\<close>

definition math_round :: "rat \<Rightarrow> int" where
  "math_round x = \<lfloor>x + 1 / 2\<rfloor>"

definition filteredStats :: "loan list \<Rightarrow> filtered_stats" where
  "filteredStats ls =
    \<lparr> fs_totalLoans = length ls,
      fs_activeLoans = length (filter (\<lambda>l. loanStatus l = ''active'') ls),
      fs_overdueLoans = length (filter (\<lambda>l. loanStatus l = ''overdue'') ls),
      fs_closedLoans = length (filter (\<lambda>l. loanStatus l = ''closed'') ls),
      fs_totalActiveLoanAmount = sumFinal (filter (\<lambda>l. loanStatus l = ''active'') ls),
      fs_totalOverdueLoanAmount = sumFinal (filter (\<lambda>l. loanStatus l = ''overdue'') ls),
      fs_totalLoanAmount = sumFinal ls,
      fs_overdueRate =
        (if length ls > 0
         then math_round (of_nat (length (filter (\<lambda>l. loanStatus l = ''overdue'') ls))
                            / of_nat (length ls) * 100)
         else 0) \<rparr>"

record jewel_stats =
  js_active :: nat
  js_overdue :: nat
  js_closed :: nat
  js_totalAmount :: rat
  js_count :: nat

text \<open>
  The callback of the \<open>reduce\<close> that builds \<open>jewelTypeSummary\<close>; the object is kept as
  the list of its entries in insertion order.
\<close>

definition jewelStep :: "loan \<Rightarrow> (string \<times> jewel_stats) list \<Rightarrow> (string \<times> jewel_stats) list" where
  "jewelStep l acc =
    (let type = (if jewelType l = [] then ''gold'' else jewelType l);
         acc1 = (if map_of acc type = None
                 then acc @ [(type, \<lparr> js_active = 0, js_overdue = 0, js_closed = 0,
                                     js_totalAmount = 0, js_count = 0 \<rparr>)]
                 else acc)
     in map (\<lambda>(k, e).
              if k = type
              then (k, \<lparr> js_active = (if loanStatus l = ''active'' then js_active e + 1 else js_active e),
                         js_overdue = (if loanStatus l = ''overdue'' then js_overdue e + 1 else js_overdue e),
                         js_closed = (if loanStatus l = ''closed'' then js_closed e + 1 else js_closed e),
                         js_totalAmount = js_totalAmount e + finalLoanAmount l,
                         js_count = js_count e + 1 \<rparr>)
              else (k, e)) acc1)"

record formatted_loan =
  f_id :: "string option"
  f_billNo :: "string option"
  f_customer_id :: string
  f_customer_fullName :: string
  f_customer_phoneNumber :: string
  f_customer_address :: string
  f_jewelType :: string
  f_grossWeight :: rat
  f_netWeight :: rat
  f_finalLoanAmount :: rat
  f_overallLoanAmount :: rat
  f_interestRate :: rat
  f_disbursementDate :: js_date
  f_dueDate :: js_date
  f_status :: "string option"
  f_loanStatus :: string
  f_repaidAmount :: rat
  f_balanceAmount :: "rat option"
  f_paymentProgress :: rat
  f_daysOverdue :: int

text \<open>The callback of \<open>paginatedLoans.map\<close>.\<close>

definition formatLoan :: "loan \<Rightarrow> formatted_loan" where
  "formatLoan l =
    \<lparr> f_id = (if truthy (loan_id l) then loan_id l else voucherId l),
      f_billNo = billNo l,
      f_customer_id = customerId l,
      f_customer_fullName = customerName l,
      f_customer_phoneNumber = customerPhone l,
      f_customer_address = customerAddress l,
      f_jewelType = jewelType l,
      f_grossWeight = grossWeight l,
      f_netWeight = netWeight l,
      f_finalLoanAmount = finalLoanAmount l,
      f_overallLoanAmount = overallLoanAmount l,
      f_interestRate = interestRate l,
      f_disbursementDate = disbursementDate l,
      f_dueDate = dueDate l,
      f_status = status l,
      f_loanStatus = loanStatus l,
      f_repaidAmount = repaidAmount l,
      f_balanceAmount = balanceAmount l,
      f_paymentProgress = paymentProgress l,
      f_daysOverdue = daysOverdue l \<rparr>"

record overall_summary =
  os_totalLoans :: rat
  os_activeLoans :: rat
  os_overdueLoans :: rat
  os_closedLoans :: rat
  os_totalLoanAmount :: rat
  os_overdueRate :: rat
  os_lastUpdated :: int

text \<open>
  The body of the answer of \<open>getStockSummary\<close>. \<open>totalPages\<close> is
  \<open>Math.ceil(totalCount / limit)\<close>, which is no finite number (\<open>None\<close>) when \<open>limit\<close> is 0.
\<close>

record query_body =
  qb_success :: bool
  qb_data :: "formatted_loan list"
  qb_currentPage :: int
  qb_totalPages :: "int option"
  qb_totalItems :: nat
  qb_itemsPerPage :: int
  qb_summary :: filtered_stats
  qb_jewelTypeSummary :: "(string \<times> jewel_stats) list"
  qb_overallSummary :: overall_summary
  qb_dataSource :: string

text \<open>The part of \<open>getStockSummary\<close> after a snapshot has been found or created.\<close>

definition respond :: "(loan list \<Rightarrow> aggregates) \<Rightarrow> snapshot \<Rightarrow> query_params \<Rightarrow> query_body" where
  "respond aggr stockSummary q =
    (let filteredLoans = applyFilters q (loans stockSummary);
         totalCount = length filteredLoans;
         paginatedLoans = paginate q filteredLoans;
         a = aggr (loans stockSummary)
     in \<lparr> qb_success = True,
          qb_data = map formatLoan paginatedLoans,
          qb_currentPage = pageOf q,
          qb_totalPages =
            (if limitOf q = 0 then None else Some (ceil_div (int totalCount) (limitOf q))),
          qb_totalItems = totalCount,
          qb_itemsPerPage = limitOf q,
          qb_summary = filteredStats filteredLoans,
          qb_jewelTypeSummary = fold jewelStep filteredLoans [],
          qb_overallSummary =
            \<lparr> os_totalLoans = totalLoans a, os_activeLoans = activeLoans a,
              os_overdueLoans = overdueLoans a, os_closedLoans = closedLoans a,
              os_totalLoanAmount = totalLoanAmount a, os_overdueRate = overdueRate a,
              os_lastUpdated = lastUpdated stockSummary \<rparr>,
          qb_dataSource = ''stocksummary'' \<rparr>)"

text \<open>The answer sent when the automatic synchronisation fails completely.\<close>

definition emptyBody :: "int \<Rightarrow> query_params \<Rightarrow> query_body" where
  "emptyBody now q =
    \<lparr> qb_success = True,
      qb_data = [],
      qb_currentPage = 1,
      qb_totalPages = Some 0,
      qb_totalItems = 0,
      qb_itemsPerPage = limitOf q,
      qb_summary =
        \<lparr> fs_totalLoans = 0, fs_activeLoans = 0, fs_overdueLoans = 0, fs_closedLoans = 0,
          fs_totalActiveLoanAmount = 0, fs_totalOverdueLoanAmount = 0,
          fs_totalLoanAmount = 0, fs_overdueRate = 0 \<rparr>,
      qb_jewelTypeSummary = [],
      qb_overallSummary =
        \<lparr> os_totalLoans = 0, os_activeLoans = 0, os_overdueLoans = 0, os_closedLoans = 0,
          os_totalLoanAmount = 0, os_overdueRate = 0, os_lastUpdated = now \<rparr>,
      qb_dataSource = ''empty'' \<rparr>"

definition getStockSummary ::
  "(loan list \<Rightarrow> aggregates) \<Rightarrow> int \<Rightarrow> world \<Rightarrow> query_params \<Rightarrow> world \<times> query_body response" where
  "getStockSummary aggr now w q =
    (if fails w SummaryFindOne then (w, Status500 ''Error fetching stock summary'')
     else
       (case latestIndex (summaries w) of
          Some i \<Rightarrow> (w, Json200 (respond aggr (summaries w ! i) q))
        | None \<Rightarrow>
            (let ls = chooseLoans voucherToLoanLazy now w;
                 stockSummary = newStockSummary now ls
             in if fails w SummarySave
                then (w, Json200 (emptyBody now q))
                else (w\<lparr>summaries := summaries w @ [stockSummary]\<rparr>,
                      Json200 (respond aggr stockSummary q)))))"

section \<open>Status maintenance\<close>

text \<open>\<open>loan._id?.toString() === id || loan.voucherId?.toString() === id\<close>.\<close>

definition matchesId :: "string \<Rightarrow> loan \<Rightarrow> bool" where
  "matchesId ident l = (loan_id l = Some ident \<or> voucherId l = Some ident)"

text \<open>The assignments of \<open>updateVoucherStatus\<close> to the loan found; \<open>st\<close> is the new status.\<close>

definition setLoanStatus :: "int \<Rightarrow> string \<Rightarrow> loan \<Rightarrow> loan" where
  "setLoanStatus now st l =
    (let l1 = l\<lparr> status := Some st,
                 loanStatus := (if st = ''Closed'' then ''closed''
                                else if st = ''Overdue'' then ''overdue'' else ''active'') \<rparr>
     in if st = ''Closed''
        then l1\<lparr> closedDate := Some now,
                 repaidAmount := overallLoanAmount l1,
                 balanceAmount := Some 0,
                 paymentProgress := 100 \<rparr>
        else l1)"

text \<open>
  \<open>updateVoucherStatus\<close>: \<open>ident\<close> is \<open>req.params.id\<close>, \<open>st\<close> is \<open>req.body.status\<close>
  (\<open>None\<close> when the body has none).
\<close>

definition updateVoucherStatus ::
  "int \<Rightarrow> world \<Rightarrow> string \<Rightarrow> string option \<Rightarrow> world \<times> loan response" where
  "updateVoucherStatus now w ident st =
    (case (if st \<in> set (map Some [''Active'', ''Partial'', ''Overdue'', ''Closed'']) then st else None) of
       None \<Rightarrow> (w, Status400 ''Invalid status provided'')
     | Some newStatus \<Rightarrow>
        (if fails w SummaryFindOne then (w, Status500 ''Error updating loan status'')
         else
           (case latestIndex (summaries w) of
              None \<Rightarrow> (w, Status404 ''Stock summary not found'')
            | Some i \<Rightarrow>
               (let stockSummary = summaries w ! i
                in (case findIndex (matchesId ident) (loans stockSummary) of
                      None \<Rightarrow> (w, Status404 ''Loan not found'')
                    | Some loanIndex \<Rightarrow>
                       (let updated = setLoanStatus now newStatus (loans stockSummary ! loanIndex);
                            saved = stockSummary\<lparr> loans := (loans stockSummary)[loanIndex := updated],
                                                  lastUpdated := now \<rparr>
                        in if fails w SummarySave
                           then (w, Status500 ''Error updating loan status'')
                           else (w\<lparr>summaries := (summaries w)[i := saved]\<rparr>, Json200 updated)))))))"

text \<open>The test and the assignments of the \<open>forEach\<close> in \<open>updateOverdueStatus\<close>.\<close>

definition newlyOverdue :: "int \<Rightarrow> loan \<Rightarrow> bool" where
  "newlyOverdue now l = (loanStatus l = ''active'' \<and> date_lt (dueDate l) now)"

definition markOverdue :: "int \<Rightarrow> loan \<Rightarrow> loan" where
  "markOverdue now l =
    l\<lparr> status := Some ''Overdue'', loanStatus := ''overdue'',
       daysOverdue := days_between now (dueDate l) \<rparr>"

text \<open>The \<open>forEach\<close> itself: the loans after the pass and \<open>modifiedCount\<close>.\<close>

fun sweep :: "int \<Rightarrow> loan list \<Rightarrow> nat \<Rightarrow> loan list \<times> nat" where
  "sweep now [] modifiedCount = ([], modifiedCount)"
| "sweep now (l # ls) modifiedCount =
    (if newlyOverdue now l
     then (case sweep now ls (modifiedCount + 1) of (ls', n) \<Rightarrow> (markOverdue now l # ls', n))
     else (case sweep now ls modifiedCount of (ls', n) \<Rightarrow> (l # ls', n)))"

definition updateOverdueStatus :: "int \<Rightarrow> world \<Rightarrow> world \<times> nat response" where
  "updateOverdueStatus now w =
    (if fails w SummaryFindOne then (w, Status500 ''Error updating overdue status'')
     else
       (case latestIndex (summaries w) of
          None \<Rightarrow> (w, Status404 ''Stock summary not found'')
        | Some i \<Rightarrow>
           (let stockSummary = summaries w ! i
            in (case sweep now (loans stockSummary) 0 of
                  (ls', modifiedCount) \<Rightarrow>
                    if modifiedCount > 0
                    then (if fails w SummarySave
                          then (w, Status500 ''Error updating overdue status'')
                          else (w\<lparr>summaries :=
                                    (summaries w)[i := stockSummary\<lparr>loans := ls', lastUpdated := now\<rparr>]\<rparr>,
                                Json200 modifiedCount))
                    else (w, Json200 modifiedCount)))))"

text \<open>\<open>deleteStockSummary\<close>: the answer carries \<open>deletedCount\<close>.\<close>

definition deleteStockSummary :: "world \<Rightarrow> world \<times> nat response" where
  "deleteStockSummary w =
    (if fails w SummaryDeleteMany then (w, Status500 ''Error deleting stock summary'')
     else (w\<lparr>summaries := []\<rparr>, Json200 (length (summaries w))))"

section \<open>Reference definitions\<close>

text \<open>
  The statements below compare the operations with these definitions, which follow the
  wording of the specification rather than the control flow of the controller.
\<close>

text \<open>A section's transactions, none when it is absent.\<close>

definition sectionList :: "ledger_section option \<Rightarrow> transaction list" where
  "sectionList s = (case sectionTransactions s of None \<Rightarrow> [] | Some ts \<Rightarrow> ts)"

text \<open>
  Following the specification: one derived loan per qualifying transaction of a day-book,
  disbursements before closures.
\<close>

definition ledgerLoans :: "int \<Rightarrow> dayBook \<Rightarrow> loan list" where
  "ledgerLoans today db =
    map (disbursedLoan today db) (filter qualifies (sectionList (db_loansDisbursed db))) @
    map (closedLoan db) (filter qualifies (sectionList (db_closedLoans db)))"




definition passesFilters :: "query_params \<Rightarrow> loan \<Rightarrow> bool" where
  "passesFilters q l =
    ((case search q of None \<Rightarrow> True | Some s \<Rightarrow> s = [] \<or> searchMatches s l) \<and>
     (case dateFilter q of None \<Rightarrow> True | Some d \<Rightarrow> dateMatches d l) \<and>
     (case statusFilter q of None \<Rightarrow> True
      | Some st \<Rightarrow> if st = ''active'' \<or> st = ''overdue'' \<or> st = ''closed''
                   then loanStatus l = st else True) \<and>
     (case jewelTypeFilter q of None \<Rightarrow> True
      | Some j \<Rightarrow> j = [] \<or> j = ''all'' \<or> jewelType l = j))"

text \<open>Following the specification: what the sweep does to one loan.\<close>

definition sweptLoan :: "int \<Rightarrow> loan \<Rightarrow> loan" where
  "sweptLoan now l = (if newlyOverdue now l then markOverdue now l else l)"

text \<open>
  The stores that the operations of the controller produce from a store without
  snapshots, while the voucher and day-book collections and the faults of the store
  change freely in between.
\<close>

inductive reachable :: "world \<Rightarrow> bool" where
  initial: "summaries w = [] \<Longrightarrow> reachable w"
| environment: "reachable w \<Longrightarrow> reachable (w\<lparr>vouchers := vs, dayBooks := dbs, failing := fs\<rparr>)"
| synced: "reachable w \<Longrightarrow> reachable (fst (createOrUpdateStockSummary aggr now w))"
| queried: "reachable w \<Longrightarrow> reachable (fst (getStockSummary aggr now w q))"
| statusSet: "reachable w \<Longrightarrow> reachable (fst (updateVoucherStatus now w ident st))"
| swept: "reachable w \<Longrightarrow> reachable (fst (updateOverdueStatus now w))"
| reset: "reachable w \<Longrightarrow> reachable (fst (deleteStockSummary w))"

text \<open>The invariant of the stores: in every snapshot, a day-book loan has equal weights.\<close>

definition weightsAgree :: "world \<Rightarrow> bool" where
  "weightsAgree w =
    (\<forall>s \<in> set (summaries w). \<forall>l \<in> set (loans s).
       sourceType l = ''daybook'' \<longrightarrow> grossWeight l = netWeight l)"

section \<open>Example documents\<close>

text \<open>Documents with every optional property absent, and a store with no documents.\<close>

definition blankVoucher :: "string \<Rightarrow> voucher" where
  "blankVoucher i =
    \<lparr> v_id = i, v_billNo = None, v_customer = None, v_customerId = None,
      v_customerName = None, v_customerPhone = None, v_jewelType = None,
      v_grossWeight = None, v_netWeight = None, v_loanAmount = None,
      v_finalLoanAmount = None, v_interestRate = None, v_interestAmount = None,
      v_overallLoanAmount = None, v_disbursementDate = None, v_dueDate = None,
      v_status = None, v_repaidAmount = None, v_balanceAmount = None,
      v_paymentProgress = None, v_lastPaymentDate = None, v_monthsPaid = None,
      v_totalInterestPaid = None, v_closedDate = None, v_jewelryItems = None \<rparr>"

definition blankTransaction :: transaction where
  "blankTransaction =
    \<lparr> t_voucherId = None, t_billNo = None, t_customerId = None, t_customerName = None,
      t_jewelType = None, t_netWeight = None, t_amount = None, t_interestRate = None,
      t_createdAt = None \<rparr>"

definition emptyWorld :: world where
  "emptyWorld = \<lparr> vouchers = [], dayBooks = [], summaries = [], failing = [] \<rparr>"

definition noFilters :: query_params where
  "noFilters =
    \<lparr> search = None, dateFilter = None, statusFilter = None, jewelTypeFilter = None,
      page = None, limit = None \<rparr>"

text \<open>An aggregate computation to run the operations with.\<close>

definition exampleAggr :: "loan list \<Rightarrow> aggregates" where
  "exampleAggr ls =
    \<lparr> totalLoans = of_nat (length ls), activeLoans = 0, overdueLoans = 0, closedLoans = 0,
      totalLoanAmount = 0, overdueRate = 0, recordCount = of_nat (length ls) \<rparr>"

text \<open>
  An active voucher due at time 0, and a voucher with an overall amount of 500 and no
  balance.
\<close>

definition dueYesterdayVoucher :: voucher where
  "dueYesterdayVoucher = (blankVoucher ''v1'')\<lparr> v_status := Some ''Active'', v_dueDate := Some 0 \<rparr>"

definition unpaidVoucher :: voucher where
  "unpaidVoucher = (blankVoucher ''v2'')\<lparr> v_overallLoanAmount := Some 500 \<rparr>"

definition oneVoucherWorld :: world where
  "oneVoucherWorld = emptyWorld\<lparr> vouchers := [dueYesterdayVoucher] \<rparr>"

text \<open>
  An active voucher due on 15 June 2023 at 00:00, for a synchronisation on 16 June 2023
  at 12:00 (time 1686916800000).
\<close>

definition dueMidnightVoucher :: voucher where
  "dueMidnightVoucher =
    (blankVoucher ''v4'')\<lparr> v_status := Some ''Active'', v_dueDate := Some 1686787200000 \<rparr>"

definition midnightWorld :: world where
  "midnightWorld = emptyWorld\<lparr> vouchers := [dueMidnightVoucher] \<rparr>"

text \<open>
  A day-book of 15 June 2023 with a transaction of 08:30 that day, listed as disbursed
  and as closed, next to a transaction without bill number.
\<close>

definition exampleTransaction :: transaction where
  "exampleTransaction =
    blankTransaction\<lparr> t_voucherId := Some ''v7'', t_billNo := Some ''B-7'',
      t_netWeight := Some 10, t_amount := Some 5000, t_createdAt := Some 1686817800000 \<rparr>"

definition unbilledTransaction :: transaction where
  "unbilledTransaction = blankTransaction\<lparr> t_voucherId := Some ''v8'', t_amount := Some 70 \<rparr>"

definition exampleDayBook :: dayBook where
  "exampleDayBook =
    \<lparr> db_id = ''d1'', db_date = Some 1686787200000,
      db_loansDisbursed = Some \<lparr> transactions = Some [exampleTransaction, unbilledTransaction] \<rparr>,
      db_closedLoans = Some \<lparr> transactions = Some [unbilledTransaction, exampleTransaction] \<rparr> \<rparr>"

definition ledgerWorld :: world where
  "ledgerWorld = emptyWorld\<lparr> dayBooks := [exampleDayBook] \<rparr>"

text \<open>Stores that hold snapshots already.\<close>

definition staleSnapshot :: snapshot where
  "staleSnapshot =
    \<lparr> loans = [closedLoan exampleDayBook exampleTransaction], lastSyncedAt = 5,
      lastUpdated = 5, syncStatus = ''synced'', dataVersion = ''1.0'' \<rparr>"

definition bothSourcesWorld :: world where
  "bothSourcesWorld =
    \<lparr> vouchers = [dueYesterdayVoucher, unpaidVoucher], dayBooks = [exampleDayBook],
      summaries = [staleSnapshot, staleSnapshot], failing = [] \<rparr>"



definition storedLoans :: "loan list" where
  "storedLoans =
    [(voucherToLoan 0 dueYesterdayVoucher)\<lparr> loan_id := Some ''l1'' \<rparr>,
     (voucherToLoan 0 unpaidVoucher)\<lparr> loan_id := Some ''l2'', loanStatus := ''active'',
        dueDate := Some 86400000 \<rparr>]"

definition storedWorld :: world where
  "storedWorld =
    emptyWorld\<lparr> summaries := [staleSnapshot, newStockSummary 10 storedLoans] \<rparr>"

section \<open>Properties\<close>

lemma ceil_div_ceiling: "ceil_div a b = \<lceil>(of_int a :: rat) / of_int b\<rceil>"
  by (simp add: ceil_div_def ceiling_divide_eq_div)

lemma pushQualifying_eq: "pushQualifying mk ts acc = acc @ map mk (filter qualifies ts)"
  by (induction ts arbitrary: acc) simp_all

lemma extractDayBook_eq: "extractDayBook today db acc = acc @ ledgerLoans today db"
  by (simp add: extractDayBook_def ledgerLoans_def sectionList_def pushQualifying_eq
      split: option.splits)

lemma fold_extractDayBook:
  "fold (extractDayBook today) dbs acc = acc @ concat (map (ledgerLoans today) dbs)"
  by (induction dbs arbitrary: acc) (simp_all add: extractDayBook_eq)

lemma extract_eq:
  "extractLoanDataFromDayBooks today w =
     (if fails w DayBookFind then [] else concat (map (ledgerLoans today) (dayBooks w)))"
  by (simp add: extractLoanDataFromDayBooks_def fold_extractDayBook)

lemma disbursedLoan_fields:
  "grossWeight (disbursedLoan today db t) = netWeight (disbursedLoan today db t)"
  "sourceType (disbursedLoan today db t) = ''daybook''"
  "dueDate (disbursedLoan today db t) = setMonth_plus12 (disbursementDate (disbursedLoan today db t))"
  "disbursementDate (disbursedLoan today db t) = disbursedAt db t"
  by (simp_all add: disbursedLoan_def Let_def)

lemma closedLoan_fields:
  "grossWeight (closedLoan db t) = netWeight (closedLoan db t)"
  "sourceType (closedLoan db t) = ''daybook''"
  "dueDate (closedLoan db t) = setMonth_plus12 (disbursementDate (closedLoan db t))"
  "disbursementDate (closedLoan db t) = disbursedAt db t"
  "status (closedLoan db t) = Some ''Closed''"
  "loanStatus (closedLoan db t) = ''closed''"
  "repaidAmount (closedLoan db t) = num_or (t_amount t) 0"
  "balanceAmount (closedLoan db t) = Some 0"
  "paymentProgress (closedLoan db t) = 100"
  "daysOverdue (closedLoan db t) = 0"
  by (simp_all add: closedLoan_def Let_def)

lemma ledgerLoans_cases:
  "l \<in> set (ledgerLoans today db) \<Longrightarrow>
     (\<exists>t. l = disbursedLoan today db t) \<or> (\<exists>t. l = closedLoan db t)"
  by (auto simp: ledgerLoans_def)

lemma extract_cases:
  "l \<in> set (extractLoanDataFromDayBooks today w) \<Longrightarrow>
     (\<exists>db t. l = disbursedLoan today db t) \<or> (\<exists>db t. l = closedLoan db t)"
  by (simp add: extract_eq split: if_splits) (blast dest: ledgerLoans_cases)

lemma extract_gross_net:
  "l \<in> set (extractLoanDataFromDayBooks today w) \<Longrightarrow> grossWeight l = netWeight l"
  by (auto dest!: extract_cases simp: disbursedLoan_fields closedLoan_fields)

lemma extract_sourceType:
  "l \<in> set (extractLoanDataFromDayBooks today w) \<Longrightarrow> sourceType l = ''daybook''"
  by (auto dest!: extract_cases simp: disbursedLoan_fields closedLoan_fields)

lemma extract_dueDate:
  "l \<in> set (extractLoanDataFromDayBooks today w) \<Longrightarrow>
     dueDate l = setMonth_plus12 (disbursementDate l)"
  by (auto dest!: extract_cases simp: disbursedLoan_fields closedLoan_fields)

lemma voucherToLoan_sourceType: "sourceType (voucherToLoan today v) = ''voucher''"
  by (simp add: voucherToLoan_def Let_def)

lemma voucherToLoanLazy_sourceType: "sourceType (voucherToLoanLazy today v) = ''voucher''"
  by (simp add: voucherToLoanLazy_def Let_def)

lemma voucherToLoan_status:
  "loanStatus (voucherToLoan today v) =
     (if date_lt (v_dueDate v) today \<and> v_status v \<noteq> Some ''Closed'' then ''overdue''
      else if v_status v = Some ''Closed'' then ''closed''
      else if v_status v = Some ''Active'' \<or> v_status v = Some ''Partial'' then ''active''
      else ''inactive'')"
  by (simp add: voucherToLoan_def Let_def)

lemma voucherToLoan_days:
  "daysOverdue (voucherToLoan today v) =
     (if date_lt (v_dueDate v) today \<and> v_status v \<noteq> Some ''Closed''
      then days_between today (v_dueDate v) else 0)"
  by (simp add: voucherToLoan_def Let_def)

lemma days_between_Some:
  "days_between today (Some d) = \<lceil>(of_int (today - d) :: rat) / 86400000\<rceil>"
  by (simp add: days_between_def ceil_div_ceiling ms_per_day_def)

lemma sync_no_fault:
  "failing w = [] \<Longrightarrow> vouchers w \<noteq> [] \<Longrightarrow>
     summaries (fst (createOrUpdateStockSummary aggr now w)) =
       [newStockSummary now (map (voucherToLoan now) (vouchers w))]"
  by (simp add: createOrUpdateStockSummary_def chooseLoans_def tryVouchers_def fails_def Let_def)

lemma div_minus_one_iff: "0 < (b::int) \<Longrightarrow> x div b = - 1 \<longleftrightarrow> - b \<le> x \<and> x < 0"
proof
  assume b: "0 < b" and h: "x div b = - 1"
  have "x = b * (x div b) + x mod b" by simp
  with h have "x = - b + x mod b" by simp
  moreover from b have "0 \<le> x mod b" "x mod b < b" by simp_all
  ultimately show "- b \<le> x \<and> x < 0" by linarith
next
  assume b: "0 < b" and h: "- b \<le> x \<and> x < 0"
  have "x = b * (- 1) + (x + b)" by simp
  moreover from h have "0 \<le> x + b" "x + b < b" by simp_all
  ultimately show "x div b = - 1" by (rule int_div_pos_eq)
qed

lemma ceil_div_one: "0 < b \<Longrightarrow> ceil_div a b = 1 \<longleftrightarrow> 0 < a \<and> a \<le> b"
proof -
  assume b: "0 < b"
  have "ceil_div a b = 1 \<longleftrightarrow> (- a) div b = - 1"
    by (simp add: ceil_div_def)
  also have "\<dots> \<longleftrightarrow> - b \<le> - a \<and> - a < 0"
    using b by (rule div_minus_one_iff)
  finally show ?thesis by auto
qed

lemma voucher_one_day:
  "v_status v \<noteq> Some ''Closed'' \<Longrightarrow> v_dueDate v = Some d \<Longrightarrow>
     daysOverdue (voucherToLoan today v) = 1 \<longleftrightarrow> d < today \<and> today - d \<le> 86400000"
  by (auto simp: voucherToLoan_days date_lt_def days_between_def ms_per_day_def ceil_div_one)

lemma ceil_div_ge_two: "0 < b \<Longrightarrow> b < a \<Longrightarrow> 2 \<le> ceil_div a b"
proof -
  assume b: "0 < b" and a: "b < a"
  have "- b - 1 = b * (- 2) + (b - 1)" by simp
  moreover from b have "0 \<le> b - 1" "b - 1 < b" by simp_all
  ultimately have e: "(- b - 1) div b = - 2" by (rule int_div_pos_eq)
  from a have "- a \<le> - b - 1" by simp
  with b have "(- a) div b \<le> (- b - 1) div b" by (simp add: zdiv_mono1)
  with e show ?thesis by (simp add: ceil_div_def)
qed

lemma voucher_two_days:
  "v_status v \<noteq> Some ''Closed'' \<Longrightarrow> v_dueDate v = Some d \<Longrightarrow> 86400000 < today - d \<Longrightarrow>
     2 \<le> daysOverdue (voucherToLoan today v)"
  using ceil_div_ge_two [of 86400000 "today - d"]
  by (simp add: voucherToLoan_days date_lt_def days_between_def ms_per_day_def)

text \<open>
  C2, as amended. For every voucher, with \<open>today\<close> the time of the synchronisation: the
  loan is overdue exactly when its due date lies before \<open>today\<close> and its status is not
  \<open>Closed\<close>; then \<open>loanStatus\<close> is \<open>overdue\<close> and \<open>daysOverdue\<close> is the difference in
  milliseconds divided by one day, rounded up. Otherwise \<open>daysOverdue\<close> is 0 and
  \<open>loanStatus\<close> is \<open>closed\<close> for the status \<open>Closed\<close>, \<open>active\<close> for \<open>Active\<close> and \<open>Partial\<close>,
  and \<open>inactive\<close> for anything else. A voucher that is not closed is overdue by 1 day
  exactly when its due date lies before \<open>today\<close> by at most one day. So a store whose only
  voucher is \<open>Active\<close> and fell due within the 24 hours before the synchronisation gets a
  snapshot with one loan, \<open>overdue\<close> by 1 day; if it fell due more than 24 hours before,
  the loan is \<open>overdue\<close> by 2 days or more.
\<close>

theorem voucher_overdue_detection:
  "((\<exists>d. v_dueDate v = Some d \<and> d < today) \<and> v_status v \<noteq> Some ''Closed'' \<longrightarrow>
      loanStatus (voucherToLoan today v) = ''overdue'' \<and>
      (\<exists>d. v_dueDate v = Some d \<and>
           daysOverdue (voucherToLoan today v) = \<lceil>(of_int (today - d) :: rat) / 86400000\<rceil>)) \<and>
   (\<not> ((\<exists>d. v_dueDate v = Some d \<and> d < today) \<and> v_status v \<noteq> Some ''Closed'') \<longrightarrow>
      daysOverdue (voucherToLoan today v) = 0 \<and>
      loanStatus (voucherToLoan today v) =
        (if v_status v = Some ''Closed'' then ''closed''
         else if v_status v = Some ''Active'' \<or> v_status v = Some ''Partial'' then ''active''
         else ''inactive'')) \<and>
   (v_status v \<noteq> Some ''Closed'' \<and> v_dueDate v = Some due \<longrightarrow>
      (daysOverdue (voucherToLoan today v) = 1 \<longleftrightarrow> due < today \<and> today - due \<le> 86400000)) \<and>
   (vouchers w = [v] \<and> failing w = [] \<and> v_status v = Some ''Active'' \<and>
    v_dueDate v = Some due \<and> due < now \<and> now - due \<le> 86400000 \<longrightarrow>
      (\<exists>l. map loans (summaries (fst (createOrUpdateStockSummary aggr now w))) = [[l]] \<and>
           loanStatus l = ''overdue'' \<and> daysOverdue l = 1)) \<and>
   (vouchers w = [v] \<and> failing w = [] \<and> v_status v = Some ''Active'' \<and>
    v_dueDate v = Some due \<and> 86400000 < now - due \<longrightarrow>
      (\<exists>l. map loans (summaries (fst (createOrUpdateStockSummary aggr now w))) = [[l]] \<and>
           loanStatus l = ''overdue'' \<and> 2 \<le> daysOverdue l))"
proof -
  have w1: "v_status v \<noteq> Some ''Closed'' \<and> v_dueDate v = Some due \<longrightarrow>
      (daysOverdue (voucherToLoan today v) = 1 \<longleftrightarrow> due < today \<and> today - due \<le> 86400000)"
    using voucher_one_day [of v due today] by blast
  let ?od = "(\<exists>d. v_dueDate v = Some d \<and> d < today) \<and> v_status v \<noteq> Some ''Closed''"
  have od: "?od = (date_lt (v_dueDate v) today \<and> v_status v \<noteq> Some ''Closed'')"
    by (cases "v_dueDate v") (simp_all add: date_lt_def)
  have a: "?od \<longrightarrow> loanStatus (voucherToLoan today v) = ''overdue'' \<and>
      (\<exists>d. v_dueDate v = Some d \<and>
           daysOverdue (voucherToLoan today v) = \<lceil>(of_int (today - d) :: rat) / 86400000\<rceil>)"
  proof
    assume h: ?od
    then obtain d where d: "v_dueDate v = Some d" by blast
    from h have h': "date_lt (v_dueDate v) today \<and> v_status v \<noteq> Some ''Closed''"
      using od by blast
    have "loanStatus (voucherToLoan today v) = ''overdue''"
      using h' by (simp add: voucherToLoan_status)
    moreover have "daysOverdue (voucherToLoan today v) = \<lceil>(of_int (today - d) :: rat) / 86400000\<rceil>"
      using h' d by (simp add: voucherToLoan_days days_between_Some)
    ultimately show "loanStatus (voucherToLoan today v) = ''overdue'' \<and>
      (\<exists>d. v_dueDate v = Some d \<and>
           daysOverdue (voucherToLoan today v) = \<lceil>(of_int (today - d) :: rat) / 86400000\<rceil>)"
      using d by simp
  qed
  have b: "\<not> ?od \<longrightarrow> daysOverdue (voucherToLoan today v) = 0 \<and>
      loanStatus (voucherToLoan today v) =
        (if v_status v = Some ''Closed'' then ''closed''
         else if v_status v = Some ''Active'' \<or> v_status v = Some ''Partial'' then ''active''
         else ''inactive'')"
    unfolding od by (simp add: voucherToLoan_status voucherToLoan_days)
  have snap: "map loans (summaries (fst (createOrUpdateStockSummary aggr now w))) = [[voucherToLoan now v]]"
    if "vouchers w = [v]" "failing w = []"
    using that sync_no_fault [of w aggr now] by (simp add: newStockSummary_def)
  have c: "vouchers w = [v] \<and> failing w = [] \<and> v_status v = Some ''Active'' \<and>
    v_dueDate v = Some due \<and> due < now \<and> now - due \<le> 86400000 \<longrightarrow>
      (\<exists>l. map loans (summaries (fst (createOrUpdateStockSummary aggr now w))) = [[l]] \<and>
           loanStatus l = ''overdue'' \<and> daysOverdue l = 1)"
  proof
    assume h: "vouchers w = [v] \<and> failing w = [] \<and> v_status v = Some ''Active'' \<and>
      v_dueDate v = Some due \<and> due < now \<and> now - due \<le> 86400000"
    have "loanStatus (voucherToLoan now v) = ''overdue''"
      using h by (simp add: voucherToLoan_status date_lt_def)
    moreover have "daysOverdue (voucherToLoan now v) = 1"
      using h voucher_one_day [of v due now] by simp
    ultimately show "\<exists>l. map loans (summaries (fst (createOrUpdateStockSummary aggr now w))) = [[l]] \<and>
           loanStatus l = ''overdue'' \<and> daysOverdue l = 1"
      using h snap by simp
  qed
  have e: "vouchers w = [v] \<and> failing w = [] \<and> v_status v = Some ''Active'' \<and>
    v_dueDate v = Some due \<and> 86400000 < now - due \<longrightarrow>
      (\<exists>l. map loans (summaries (fst (createOrUpdateStockSummary aggr now w))) = [[l]] \<and>
           loanStatus l = ''overdue'' \<and> 2 \<le> daysOverdue l)"
  proof
    assume h: "vouchers w = [v] \<and> failing w = [] \<and> v_status v = Some ''Active'' \<and>
      v_dueDate v = Some due \<and> 86400000 < now - due"
    have "loanStatus (voucherToLoan now v) = ''overdue''"
      using h by (simp add: voucherToLoan_status date_lt_def)
    moreover have "2 \<le> daysOverdue (voucherToLoan now v)"
      using h voucher_two_days [of v due now] by simp
    ultimately show "\<exists>l. map loans (summaries (fst (createOrUpdateStockSummary aggr now w))) = [[l]] \<and>
           loanStatus l = ''overdue'' \<and> 2 \<le> daysOverdue l"
      using h snap by simp
  qed
  from a b w1 c e show ?thesis by blast
qed

theorem voucher_overdue_detection_witness:
  "loanStatus (voucherToLoan 86400000 dueYesterdayVoucher) = ''overdue'' \<and>
   daysOverdue (voucherToLoan 86400000 dueYesterdayVoucher) = 1 \<and>
   daysOverdue (voucherToLoan 86400001 dueYesterdayVoucher) = 2 \<and>
   daysOverdue (voucherToLoan 0 dueYesterdayVoucher) = 0 \<and>
   loanStatus (voucherToLoan 0 dueYesterdayVoucher) = ''active'' \<and>
   (\<exists>l. map loans (summaries (fst (createOrUpdateStockSummary exampleAggr 86400000 oneVoucherWorld))) = [[l]] \<and>
        loanStatus l = ''overdue'' \<and> daysOverdue l = 1) \<and>
   (\<exists>l. map loans (summaries (fst (createOrUpdateStockSummary exampleAggr 3600000 oneVoucherWorld))) = [[l]] \<and>
        loanStatus l = ''overdue'' \<and> daysOverdue l = 1) \<and>
   (\<exists>l. map loans (summaries (fst (createOrUpdateStockSummary exampleAggr 1686916800000 midnightWorld))) = [[l]] \<and>
        loanStatus l = ''overdue'' \<and> 2 \<le> daysOverdue l)"
proof -
  have two: "daysOverdue (voucherToLoan 86400001 dueYesterdayVoucher) = 2"
    by (simp add: voucherToLoan_days date_lt_def days_between_def ceil_div_def ms_per_day_def
        dueYesterdayVoucher_def blankVoucher_def)
  have rest: "loanStatus (voucherToLoan 86400000 dueYesterdayVoucher) = ''overdue'' \<and>
   daysOverdue (voucherToLoan 86400000 dueYesterdayVoucher) = 1 \<and>
   daysOverdue (voucherToLoan 0 dueYesterdayVoucher) = 0 \<and>
   loanStatus (voucherToLoan 0 dueYesterdayVoucher) = ''active'' \<and>
   (\<exists>l. map loans (summaries (fst (createOrUpdateStockSummary exampleAggr 86400000 oneVoucherWorld))) = [[l]] \<and>
        loanStatus l = ''overdue'' \<and> daysOverdue l = 1)"
    using voucher_overdue_detection [where v = dueYesterdayVoucher and today = 86400000
        and w = oneVoucherWorld and now = 86400000 and aggr = exampleAggr and due = 0]
      voucher_overdue_detection [where v = dueYesterdayVoucher and today = 0
        and w = oneVoucherWorld and now = 0 and aggr = exampleAggr and due = 0]
    by (simp add: dueYesterdayVoucher_def oneVoucherWorld_def emptyWorld_def blankVoucher_def)
  have hour: "\<exists>l. map loans (summaries (fst (createOrUpdateStockSummary exampleAggr 3600000 oneVoucherWorld))) = [[l]] \<and>
        loanStatus l = ''overdue'' \<and> daysOverdue l = 1"
    using voucher_overdue_detection [where v = dueYesterdayVoucher and today = 0
        and w = oneVoucherWorld and now = 3600000 and aggr = exampleAggr and due = 0]
    by (simp add: dueYesterdayVoucher_def oneVoucherWorld_def emptyWorld_def blankVoucher_def)
  have noon: "\<exists>l. map loans (summaries (fst (createOrUpdateStockSummary exampleAggr 1686916800000 midnightWorld))) = [[l]] \<and>
        loanStatus l = ''overdue'' \<and> 2 \<le> daysOverdue l"
    using voucher_overdue_detection [where v = dueMidnightVoucher and today = 0
        and w = midnightWorld and now = 1686916800000 and aggr = exampleAggr
        and due = 1686787200000]
    by (simp add: dueMidnightVoucher_def midnightWorld_def emptyWorld_def blankVoucher_def)
  from two rest hour noon show ?thesis by blast
qed

text \<open>
  C2 as written does not hold for every due date of the day before: an \<open>Active\<close> voucher
  due on 15 June 2023 at 00:00, synchronised on 16 June 2023 at 12:00, is 36 hours past
  due and comes out \<open>overdue\<close> by 2 days, not 1.
\<close>

theorem voucher_due_yesterday_counterexample:
  "vouchers midnightWorld = [dueMidnightVoucher] \<and>
   failing midnightWorld = [] \<and>
   v_status dueMidnightVoucher = Some ''Active'' \<and>
   v_dueDate dueMidnightVoucher = Some 1686787200000 \<and>
   map (map loanStatus \<circ> loans)
     (summaries (fst (createOrUpdateStockSummary exampleAggr 1686916800000 midnightWorld)))
     = [[''overdue'']] \<and>
   map (map daysOverdue \<circ> loans)
     (summaries (fst (createOrUpdateStockSummary exampleAggr 1686916800000 midnightWorld)))
     = [[2]] \<and>
   map (map daysOverdue \<circ> loans)
     (summaries (fst (createOrUpdateStockSummary exampleAggr 1686916800000 midnightWorld)))
     \<noteq> [[1]]"
proof -
  have w: "vouchers midnightWorld = [dueMidnightVoucher]" "failing midnightWorld = []"
    "vouchers midnightWorld \<noteq> []"
    by (simp_all add: midnightWorld_def emptyWorld_def)
  have v: "v_status dueMidnightVoucher = Some ''Active''"
    "v_dueDate dueMidnightVoucher = Some 1686787200000"
    by (simp_all add: dueMidnightVoucher_def blankVoucher_def)
  have s: "summaries (fst (createOrUpdateStockSummary exampleAggr 1686916800000 midnightWorld)) =
      [newStockSummary 1686916800000 [voucherToLoan 1686916800000 dueMidnightVoucher]]"
    using sync_no_fault [OF w(2) w(3)] by (simp add: w)
  have l: "loanStatus (voucherToLoan 1686916800000 dueMidnightVoucher) = ''overdue''"
    "daysOverdue (voucherToLoan 1686916800000 dueMidnightVoucher) = 2"
    by (simp_all add: voucherToLoan_status voucherToLoan_days v date_lt_def days_between_def
        ceil_div_def ms_per_day_def)
  show ?thesis
    by (simp add: w v s l newStockSummary_def)
qed

lemma setMonth_plus12_example:
  "setMonth_plus12 (Some 1686817800000) = Some 1718440200000"
  by code_simp

lemma setMonth_plus12_leap_day:
  "setMonth_plus12 (Some 1709208000000) = Some 1740830400000"
  by code_simp

text \<open>
  More dates, checked against the Gregorian calendar in UTC: the last millisecond
  of 1999, 1 March 1969, 28 February 2100, 29 February 2000, 1 January 1900, the
  Invalid Date and the last date there is.
\<close>

lemma setMonth_plus12_dates:
  "setMonth_plus12 (Some 946684799999) = Some 978307199999"
  "setMonth_plus12 (Some (- 26438400000)) = Some 5097600000"
  "setMonth_plus12 (Some 4107477600000) = Some 4139013600000"
  "setMonth_plus12 (Some 951782400000) = Some 983404800000"
  "setMonth_plus12 (Some (- 2208988800000)) = Some (- 2177452800000)"
  "setMonth_plus12 None = None"
  "setMonth_plus12 (Some 8640000000000000) = None"
  by code_simp+

lemma num_or_Some_0 [simp]: "num_or (Some a) 0 = a"
  by (simp add: num_or_def)

lemma num_or_None [simp]: "num_or None d = d"
  by (simp add: num_or_def)

lemma ledgerWorld_loans:
  "extractLoanDataFromDayBooks 0 ledgerWorld =
     [disbursedLoan 0 exampleDayBook exampleTransaction, closedLoan exampleDayBook exampleTransaction]"
  by (simp add: extract_eq ledgerWorld_def emptyWorld_def fails_def ledgerLoans_def
      sectionList_def sectionTransactions_def exampleDayBook_def qualifies_def truthy_def
      exampleTransaction_def unbilledTransaction_def blankTransaction_def)

lemma chooseLoans_cases:
  "l \<in> set (chooseLoans mk today w) \<Longrightarrow>
     (\<exists>v. l = mk today v) \<or> l \<in> set (extractLoanDataFromDayBooks today w)"
  by (auto simp: chooseLoans_def tryVouchers_def Let_def split: if_splits)

lemma sync_summaries:
  "\<not> fails w SummaryDeleteMany \<Longrightarrow>
     summaries (fst (createOrUpdateStockSummary aggr now w)) =
       (if fails w SummarySave then []
        else [newStockSummary now (chooseLoans voucherToLoan now w)])"
  by (simp add: createOrUpdateStockSummary_def Let_def)

lemma latestIndex_None [simp]: "latestIndex ss = None \<longleftrightarrow> ss = []"
  by (cases ss) (simp_all split: option.splits)

lemma lazy_summaries:
  "summaries w = [] \<Longrightarrow>
     summaries (fst (getStockSummary aggr now w q)) =
       (if fails w SummaryFindOne \<or> fails w SummarySave then []
        else [newStockSummary now (chooseLoans voucherToLoanLazy now w)])"
  by (simp add: getStockSummary_def Let_def)

lemma setLoanStatus_keeps:
  "grossWeight (setLoanStatus now st l) = grossWeight l"
  "netWeight (setLoanStatus now st l) = netWeight l"
  "sourceType (setLoanStatus now st l) = sourceType l"
  by (simp_all add: setLoanStatus_def Let_def)

lemma markOverdue_keeps:
  "grossWeight (markOverdue now l) = grossWeight l"
  "netWeight (markOverdue now l) = netWeight l"
  "sourceType (markOverdue now l) = sourceType l"
  by (simp_all add: markOverdue_def)

text \<open>
  C9, as amended. A financial field absent in the voucher is 0 in the derived loan:
  \<open>loanAmount\<close>, \<open>finalLoanAmount\<close>, \<open>overallLoanAmount\<close>, \<open>interestRate\<close>,
  \<open>interestAmount\<close>, \<open>repaidAmount\<close> and \<open>paymentProgress\<close> on both paths that read
  vouchers, \<open>totalInterestPaid\<close> and \<open>monthsPaid\<close> in the forced synchronisation. An
  absent \<open>balanceAmount\<close> is not 0 but the voucher's \<open>overallLoanAmount\<close>, as the voucher
  has it.
\<close>

theorem voucher_financial_defaults:
  "(v_loanAmount v = None \<longrightarrow> loanAmount (voucherToLoan today v) = 0) \<and>
   (v_finalLoanAmount v = None \<longrightarrow> finalLoanAmount (voucherToLoan today v) = 0) \<and>
   (v_overallLoanAmount v = None \<longrightarrow> overallLoanAmount (voucherToLoan today v) = 0) \<and>
   (v_interestRate v = None \<longrightarrow> interestRate (voucherToLoan today v) = 0) \<and>
   (v_interestAmount v = None \<longrightarrow> interestAmount (voucherToLoan today v) = 0) \<and>
   (v_repaidAmount v = None \<longrightarrow> repaidAmount (voucherToLoan today v) = 0) \<and>
   (v_paymentProgress v = None \<longrightarrow> paymentProgress (voucherToLoan today v) = 0) \<and>
   (v_totalInterestPaid v = None \<longrightarrow> totalInterestPaid (voucherToLoan today v) = Some 0) \<and>
   (v_monthsPaid v = None \<longrightarrow> monthsPaid (voucherToLoan today v) = Some 0) \<and>
   (v_balanceAmount v = None \<longrightarrow>
      balanceAmount (voucherToLoan today v) = v_overallLoanAmount v) \<and>
   (v_loanAmount v = None \<longrightarrow> loanAmount (voucherToLoanLazy today v) = 0) \<and>
   (v_finalLoanAmount v = None \<longrightarrow> finalLoanAmount (voucherToLoanLazy today v) = 0) \<and>
   (v_overallLoanAmount v = None \<longrightarrow> overallLoanAmount (voucherToLoanLazy today v) = 0) \<and>
   (v_interestRate v = None \<longrightarrow> interestRate (voucherToLoanLazy today v) = 0) \<and>
   (v_interestAmount v = None \<longrightarrow> interestAmount (voucherToLoanLazy today v) = 0) \<and>
   (v_repaidAmount v = None \<longrightarrow> repaidAmount (voucherToLoanLazy today v) = 0) \<and>
   (v_paymentProgress v = None \<longrightarrow> paymentProgress (voucherToLoanLazy today v) = 0) \<and>
   (v_balanceAmount v = None \<longrightarrow>
      balanceAmount (voucherToLoanLazy today v) = v_overallLoanAmount v)"
  by (simp add: voucherToLoan_def voucherToLoanLazy_def Let_def balance_or_def)

theorem voucher_financial_defaults_witness:
  "loanAmount (voucherToLoan 0 unpaidVoucher) = 0 \<and>
   finalLoanAmount (voucherToLoan 0 unpaidVoucher) = 0 \<and>
   interestRate (voucherToLoan 0 unpaidVoucher) = 0 \<and>
   interestAmount (voucherToLoan 0 unpaidVoucher) = 0 \<and>
   repaidAmount (voucherToLoan 0 unpaidVoucher) = 0 \<and>
   paymentProgress (voucherToLoan 0 unpaidVoucher) = 0 \<and>
   totalInterestPaid (voucherToLoan 0 unpaidVoucher) = Some 0 \<and>
   monthsPaid (voucherToLoan 0 unpaidVoucher) = Some 0 \<and>
   balanceAmount (voucherToLoan 0 unpaidVoucher) = Some 500 \<and>
   overallLoanAmount (voucherToLoan 0 (blankVoucher ''v3'')) = 0 \<and>
   balanceAmount (voucherToLoan 0 (blankVoucher ''v3'')) = None \<and>
   loanAmount (voucherToLoanLazy 0 unpaidVoucher) = 0 \<and>
   balanceAmount (voucherToLoanLazy 0 unpaidVoucher) = Some 500"
  using voucher_financial_defaults [of unpaidVoucher 0]
    voucher_financial_defaults [of "blankVoucher ''v3''" 0]
  by (simp add: unpaidVoucher_def blankVoucher_def)

text \<open>
  C9 as written does not hold: a voucher with no \<open>balanceAmount\<close> and an
  \<open>overallLoanAmount\<close> of 500 gives a loan whose \<open>balanceAmount\<close> is 500, on both
  paths.
\<close>

theorem voucher_balance_default_counterexample:
  "v_balanceAmount unpaidVoucher = None \<and>
   balanceAmount (voucherToLoan 0 unpaidVoucher) = Some 500 \<and>
   balanceAmount (voucherToLoan 0 unpaidVoucher) \<noteq> Some 0 \<and>
   balanceAmount (voucherToLoanLazy 0 unpaidVoucher) \<noteq> Some 0"
  by (simp add: unpaidVoucher_def blankVoucher_def voucherToLoan_def voucherToLoanLazy_def
      Let_def balance_or_def)

text \<open>
  C3. When the day-book query succeeds, the ledger reader emits exactly one loan per
  qualifying transaction, in order, and a transaction qualifies exactly when both its
  voucher reference and its bill number are present and not empty. The due date of
  every emitted loan is its disbursement date moved on by twelve months (the same day
  and time one year later; from 29 February, 1 March). A transaction
  under \<open>closedLoans\<close> is emitted with status \<open>Closed\<close>, \<open>repaidAmount\<close> its amount (0 when
  it has none), \<open>balanceAmount\<close> 0 and \<open>paymentProgress\<close> 100, whatever the date.
\<close>

theorem ledger_reader_output:
  "(\<not> fails w DayBookFind \<longrightarrow>
      extractLoanDataFromDayBooks today w = concat (map (ledgerLoans today) (dayBooks w)) \<and>
      length (extractLoanDataFromDayBooks today w) =
        sum_list (map (\<lambda>db. length (filter qualifies (sectionList (db_loansDisbursed db))) +
                           length (filter qualifies (sectionList (db_closedLoans db))))
                      (dayBooks w))) \<and>
   (qualifies t \<longleftrightarrow>
      (\<exists>ref bill. t_voucherId t = Some ref \<and> ref \<noteq> [] \<and> t_billNo t = Some bill \<and> bill \<noteq> [])) \<and>
   (\<forall>l \<in> set (extractLoanDataFromDayBooks today w).
      dueDate l = setMonth_plus12 (disbursementDate l)) \<and>
   (\<forall>db \<in> set (dayBooks w). \<forall>c \<in> set (sectionList (db_closedLoans db)).
      \<not> fails w DayBookFind \<and> qualifies c \<longrightarrow>
        closedLoan db c \<in> set (extractLoanDataFromDayBooks today w)) \<and>
   status (closedLoan d t) = Some ''Closed'' \<and>
   repaidAmount (closedLoan d t) = (case t_amount t of None \<Rightarrow> 0 | Some a \<Rightarrow> a) \<and>
   balanceAmount (closedLoan d t) = Some 0 \<and>
   paymentProgress (closedLoan d t) = 100"
proof -
  have a: "\<not> fails w DayBookFind \<longrightarrow>
      extractLoanDataFromDayBooks today w = concat (map (ledgerLoans today) (dayBooks w)) \<and>
      length (extractLoanDataFromDayBooks today w) =
        sum_list (map (\<lambda>db. length (filter qualifies (sectionList (db_loansDisbursed db))) +
                           length (filter qualifies (sectionList (db_closedLoans db))))
                      (dayBooks w))"
    by (simp add: extract_eq length_concat ledgerLoans_def comp_def)
  have b: "qualifies t \<longleftrightarrow>
      (\<exists>ref bill. t_voucherId t = Some ref \<and> ref \<noteq> [] \<and> t_billNo t = Some bill \<and> bill \<noteq> [])"
    by (auto simp: qualifies_def truthy_def split: option.splits)
  have c: "\<forall>l \<in> set (extractLoanDataFromDayBooks today w).
      dueDate l = setMonth_plus12 (disbursementDate l)"
    by (simp add: extract_dueDate)
  have d: "\<forall>db \<in> set (dayBooks w). \<forall>c \<in> set (sectionList (db_closedLoans db)).
      \<not> fails w DayBookFind \<and> qualifies c \<longrightarrow>
        closedLoan db c \<in> set (extractLoanDataFromDayBooks today w)"
    by (auto simp: extract_eq ledgerLoans_def)
  have e: "repaidAmount (closedLoan d t) = (case t_amount t of None \<Rightarrow> 0 | Some a \<Rightarrow> a)"
    by (simp add: closedLoan_fields split: option.splits)
  from a b c d e show ?thesis
    by (simp only: closedLoan_fields)
qed

theorem ledger_reader_output_witness:
  "length (extractLoanDataFromDayBooks 0 ledgerWorld) = 2 \<and>
   map billNo (extractLoanDataFromDayBooks 0 ledgerWorld) = [Some ''B-7'', Some ''B-7''] \<and>
   map disbursementDate (extractLoanDataFromDayBooks 0 ledgerWorld) =
     [Some 1686817800000, Some 1686817800000] \<and>
   map dueDate (extractLoanDataFromDayBooks 0 ledgerWorld) =
     [Some 1718440200000, Some 1718440200000] \<and>
   map status (extractLoanDataFromDayBooks 0 ledgerWorld) = [Some ''Active'', Some ''Closed''] \<and>
   map repaidAmount (extractLoanDataFromDayBooks 0 ledgerWorld) = [0, 5000] \<and>
   map balanceAmount (extractLoanDataFromDayBooks 0 ledgerWorld) = [Some 5000, Some 0] \<and>
   map paymentProgress (extractLoanDataFromDayBooks 0 ledgerWorld) = [0, 100] \<and>
   qualifies exampleTransaction \<and> \<not> qualifies unbilledTransaction \<and>
   setMonth_plus12 (Some 1709208000000) = Some 1740830400000"
proof -
  have f: "\<not> fails ledgerWorld DayBookFind"
    by (simp add: fails_def ledgerWorld_def emptyWorld_def)
  have dis: "disbursedAt exampleDayBook exampleTransaction = Some 1686817800000"
    by (simp add: disbursedAt_def exampleTransaction_def blankTransaction_def)
  have q: "qualifies exampleTransaction" "\<not> qualifies unbilledTransaction"
    by (simp_all add: qualifies_def truthy_def exampleTransaction_def unbilledTransaction_def
        blankTransaction_def)
  have l1: "billNo (disbursedLoan 0 exampleDayBook exampleTransaction) = Some ''B-7''"
    "status (disbursedLoan 0 exampleDayBook exampleTransaction) = Some ''Active''"
    "repaidAmount (disbursedLoan 0 exampleDayBook exampleTransaction) = 0"
    "balanceAmount (disbursedLoan 0 exampleDayBook exampleTransaction) = Some 5000"
    "paymentProgress (disbursedLoan 0 exampleDayBook exampleTransaction) = 0"
    by (simp_all add: disbursedLoan_def Let_def dis setMonth_plus12_example date_lt_def)
       (simp_all add: exampleTransaction_def blankTransaction_def)
  have l2: "billNo (closedLoan exampleDayBook exampleTransaction) = Some ''B-7''"
    "t_amount exampleTransaction = Some 5000"
    by (simp_all add: closedLoan_def Let_def exampleTransaction_def blankTransaction_def)
  have main: "length (extractLoanDataFromDayBooks 0 ledgerWorld) = 2 \<and>
   map billNo (extractLoanDataFromDayBooks 0 ledgerWorld) = [Some ''B-7'', Some ''B-7''] \<and>
   map disbursementDate (extractLoanDataFromDayBooks 0 ledgerWorld) =
     [Some 1686817800000, Some 1686817800000] \<and>
   map dueDate (extractLoanDataFromDayBooks 0 ledgerWorld) =
     [Some 1718440200000, Some 1718440200000] \<and>
   map status (extractLoanDataFromDayBooks 0 ledgerWorld) = [Some ''Active'', Some ''Closed''] \<and>
   map repaidAmount (extractLoanDataFromDayBooks 0 ledgerWorld) = [0, 5000] \<and>
   map balanceAmount (extractLoanDataFromDayBooks 0 ledgerWorld) = [Some 5000, Some 0] \<and>
   map paymentProgress (extractLoanDataFromDayBooks 0 ledgerWorld) = [0, 100]"
    by (simp add: ledgerWorld_loans disbursedLoan_fields closedLoan_fields dis
        setMonth_plus12_example l1 l2)
  have closed: "status (closedLoan exampleDayBook exampleTransaction) = Some ''Closed'' \<and>
      repaidAmount (closedLoan exampleDayBook exampleTransaction) = 5000"
    using ledger_reader_output [of ledgerWorld 0 exampleTransaction exampleDayBook] l2
    by simp
  from main closed q setMonth_plus12_leap_day show ?thesis
    by blast
qed

lemma chooseLoans_eq:
  "chooseLoans mk today w =
     (if \<not> fails w VoucherCount \<and> \<not> fails w VoucherFind \<and> vouchers w \<noteq> []
      then map (mk today) (vouchers w) else extractLoanDataFromDayBooks today w)"
  by (simp add: chooseLoans_def tryVouchers_def Let_def)

lemma sync_ok:
  "\<not> fails w SummaryDeleteMany \<Longrightarrow> \<not> fails w SummarySave \<Longrightarrow>
     createOrUpdateStockSummary aggr now w =
       (w\<lparr>summaries := [newStockSummary now (chooseLoans voucherToLoan now w)]\<rparr>,
        Json200 \<lparr> sb_count = length (chooseLoans voucherToLoan now w),
                  sb_aggregates = aggr (chooseLoans voucherToLoan now w),
                  sb_lastUpdated = now,
                  sb_dataSource = (if chooseLoans voucherToLoan now w \<noteq> []
                                   then sourceType (hd (chooseLoans voucherToLoan now w))
                                   else ''unknown'') \<rparr>)"
  by (simp add: createOrUpdateStockSummary_def Let_def newStockSummary_def)

text \<open>
  C1. When the snapshot store accepts the delete and the save, a synchronisation answers
  with success and leaves exactly one snapshot, whatever snapshots there were before.
  Its loans are the vouchers mapped in order when the voucher collection can be counted
  and read and is not empty, and otherwise (a fault of either voucher query, or no
  vouchers) the output of the ledger reader, which may be empty. In the first case every
  loan has source type \<open>voucher\<close>, in the second every loan has source type \<open>daybook\<close>; the
  two are never mixed.
\<close>

theorem sync_replaces_snapshot:
  "\<not> fails w SummaryDeleteMany \<and> \<not> fails w SummarySave \<longrightarrow>
     (\<exists>ls body.
        createOrUpdateStockSummary aggr now w =
          (w\<lparr>summaries := [newStockSummary now ls]\<rparr>, Json200 body) \<and>
        loans (newStockSummary now ls) = ls \<and>
        sb_count body = length ls \<and>
        ls = (if \<not> fails w VoucherCount \<and> \<not> fails w VoucherFind \<and> vouchers w \<noteq> []
              then map (voucherToLoan now) (vouchers w)
              else extractLoanDataFromDayBooks now w) \<and>
        (\<not> fails w VoucherCount \<and> \<not> fails w VoucherFind \<and> vouchers w \<noteq> [] \<longrightarrow>
           ls \<noteq> [] \<and> (\<forall>l \<in> set ls. sourceType l = ''voucher'')) \<and>
        (fails w VoucherCount \<or> fails w VoucherFind \<or> vouchers w = [] \<longrightarrow>
           (\<forall>l \<in> set ls. sourceType l = ''daybook'')) \<and>
        ((\<forall>l \<in> set ls. sourceType l = ''voucher'') \<or> (\<forall>l \<in> set ls. sourceType l = ''daybook'')))"
proof
  assume ok: "\<not> fails w SummaryDeleteMany \<and> \<not> fails w SummarySave"
  let ?ls = "chooseLoans voucherToLoan now w"
  let ?readable = "\<not> fails w VoucherCount \<and> \<not> fails w VoucherFind \<and> vouchers w \<noteq> []"
  have v: "?readable \<longrightarrow> ?ls \<noteq> [] \<and> (\<forall>l \<in> set ?ls. sourceType l = ''voucher'')"
    by (auto simp: chooseLoans_eq voucherToLoan_sourceType)
  have d: "fails w VoucherCount \<or> fails w VoucherFind \<or> vouchers w = [] \<longrightarrow>
      (\<forall>l \<in> set ?ls. sourceType l = ''daybook'')"
    by (auto simp: chooseLoans_eq extract_sourceType)
  have u: "(\<forall>l \<in> set ?ls. sourceType l = ''voucher'') \<or> (\<forall>l \<in> set ?ls. sourceType l = ''daybook'')"
    using v d by blast
  have r: "createOrUpdateStockSummary aggr now w =
      (w\<lparr>summaries := [newStockSummary now ?ls]\<rparr>,
       Json200 \<lparr> sb_count = length ?ls, sb_aggregates = aggr ?ls, sb_lastUpdated = now,
                 sb_dataSource = (if ?ls \<noteq> [] then sourceType (hd ?ls) else ''unknown'') \<rparr>)"
    using ok by (simp add: sync_ok)
  have e: "?ls = (if ?readable then map (voucherToLoan now) (vouchers w)
              else extractLoanDataFromDayBooks now w)"
    by (rule chooseLoans_eq)
  have n: "loans (newStockSummary now ?ls) = ?ls"
    by (simp add: newStockSummary_def)
  show "\<exists>ls body.
        createOrUpdateStockSummary aggr now w =
          (w\<lparr>summaries := [newStockSummary now ls]\<rparr>, Json200 body) \<and>
        loans (newStockSummary now ls) = ls \<and>
        sb_count body = length ls \<and>
        ls = (if ?readable then map (voucherToLoan now) (vouchers w)
              else extractLoanDataFromDayBooks now w) \<and>
        (?readable \<longrightarrow> ls \<noteq> [] \<and> (\<forall>l \<in> set ls. sourceType l = ''voucher'')) \<and>
        (fails w VoucherCount \<or> fails w VoucherFind \<or> vouchers w = [] \<longrightarrow>
           (\<forall>l \<in> set ls. sourceType l = ''daybook'')) \<and>
        ((\<forall>l \<in> set ls. sourceType l = ''voucher'') \<or> (\<forall>l \<in> set ls. sourceType l = ''daybook''))"
    apply (rule exI [of _ ?ls])
    apply (rule exI [of _ "\<lparr> sb_count = length ?ls, sb_aggregates = aggr ?ls, sb_lastUpdated = now,
                 sb_dataSource = (if ?ls \<noteq> [] then sourceType (hd ?ls) else ''unknown'') \<rparr>"])
    using r e n v d u apply (intro conjI)
          apply assumption
         apply assumption
        apply simp
       apply assumption
      apply assumption
     apply assumption
    apply assumption
    done
qed

lemma extract_cong:
  "dayBooks w = dayBooks w' \<Longrightarrow> fails w DayBookFind = fails w' DayBookFind \<Longrightarrow>
     extractLoanDataFromDayBooks today w = extractLoanDataFromDayBooks today w'"
  by (simp add: extract_eq)

theorem sync_replaces_snapshot_witness:
  "map (map sourceType \<circ> loans)
       (summaries (fst (createOrUpdateStockSummary exampleAggr 0 bothSourcesWorld)))
     = [[''voucher'', ''voucher'']] \<and>
   map (map sourceType \<circ> loans)
       (summaries (fst (createOrUpdateStockSummary exampleAggr 0
          (bothSourcesWorld\<lparr>failing := [VoucherFind]\<rparr>))))
     = [[''daybook'', ''daybook'']] \<and>
   map loans (summaries (fst (createOrUpdateStockSummary exampleAggr 0 emptyWorld))) = [[]] \<and>
   (\<exists>body. snd (createOrUpdateStockSummary exampleAggr 0 emptyWorld) = Json200 body)"
proof -
  let ?w1 = bothSourcesWorld
  let ?w2 = "bothSourcesWorld\<lparr>failing := [VoucherFind]\<rparr>"
  have f1: "\<not> fails ?w1 SummaryDeleteMany \<and> \<not> fails ?w1 SummarySave"
    and r1: "\<not> fails ?w1 VoucherCount \<and> \<not> fails ?w1 VoucherFind \<and> vouchers ?w1 \<noteq> []"
    and v1: "vouchers ?w1 = [dueYesterdayVoucher, unpaidVoucher]"
    by (simp_all add: fails_def bothSourcesWorld_def)
  from sync_replaces_snapshot [of ?w1 exampleAggr 0] f1 obtain ls1 body1 where
    s1: "createOrUpdateStockSummary exampleAggr 0 ?w1 =
          (?w1\<lparr>summaries := [newStockSummary 0 ls1]\<rparr>, Json200 body1)"
    and l1: "ls1 = (if \<not> fails ?w1 VoucherCount \<and> \<not> fails ?w1 VoucherFind \<and> vouchers ?w1 \<noteq> []
              then map (voucherToLoan 0) (vouchers ?w1)
              else extractLoanDataFromDayBooks 0 ?w1)"
    by blast
  have a: "map (map sourceType \<circ> loans)
       (summaries (fst (createOrUpdateStockSummary exampleAggr 0 ?w1)))
     = [[''voucher'', ''voucher'']]"
    using r1 by (simp add: s1 l1 v1 newStockSummary_def voucherToLoan_sourceType)
  have f2: "\<not> fails ?w2 SummaryDeleteMany \<and> \<not> fails ?w2 SummarySave"
    and r2: "fails ?w2 VoucherFind"
    by (simp_all add: fails_def bothSourcesWorld_def)
  have e2: "extractLoanDataFromDayBooks 0 ?w2 = extractLoanDataFromDayBooks 0 ledgerWorld"
    by (rule extract_cong) (simp_all add: bothSourcesWorld_def ledgerWorld_def emptyWorld_def fails_def)
  from sync_replaces_snapshot [of ?w2 exampleAggr 0] f2 obtain ls2 body2 where
    s2: "createOrUpdateStockSummary exampleAggr 0 ?w2 =
          (?w2\<lparr>summaries := [newStockSummary 0 ls2]\<rparr>, Json200 body2)"
    and l2: "ls2 = (if \<not> fails ?w2 VoucherCount \<and> \<not> fails ?w2 VoucherFind \<and> vouchers ?w2 \<noteq> []
              then map (voucherToLoan 0) (vouchers ?w2)
              else extractLoanDataFromDayBooks 0 ?w2)"
    by blast
  have ls2: "ls2 = extractLoanDataFromDayBooks 0 ledgerWorld"
    using r2 l2 e2 by simp
  have b: "map (map sourceType \<circ> loans)
       (summaries (fst (createOrUpdateStockSummary exampleAggr 0 ?w2)))
     = [[''daybook'', ''daybook'']]"
    by (simp add: s2 ls2 newStockSummary_def ledgerWorld_loans disbursedLoan_fields
        closedLoan_fields)
  have f3: "\<not> fails emptyWorld SummaryDeleteMany \<and> \<not> fails emptyWorld SummarySave"
    and r3: "vouchers emptyWorld = []" "dayBooks emptyWorld = []" "\<not> fails emptyWorld DayBookFind"
    by (simp_all add: fails_def emptyWorld_def)
  from sync_replaces_snapshot [of emptyWorld exampleAggr 0] f3 obtain ls3 body3 where
    s3: "createOrUpdateStockSummary exampleAggr 0 emptyWorld =
          (emptyWorld\<lparr>summaries := [newStockSummary 0 ls3]\<rparr>, Json200 body3)"
    and l3: "ls3 = (if \<not> fails emptyWorld VoucherCount \<and> \<not> fails emptyWorld VoucherFind \<and>
                     vouchers emptyWorld \<noteq> []
              then map (voucherToLoan 0) (vouchers emptyWorld)
              else extractLoanDataFromDayBooks 0 emptyWorld)"
    by blast
  have c: "map loans (summaries (fst (createOrUpdateStockSummary exampleAggr 0 emptyWorld))) = [[]]"
    "\<exists>body. snd (createOrUpdateStockSummary exampleAggr 0 emptyWorld) = Json200 body"
    using r3 by (simp_all add: s3 l3 newStockSummary_def extract_eq)
  from a b c show ?thesis by blast
qed

lemma lazy_sync_ok:
  "summaries w = [] \<Longrightarrow> \<not> fails w SummaryFindOne \<Longrightarrow>
     getStockSummary aggr now w q =
       (if fails w SummarySave then (w, Json200 (emptyBody now q))
        else (w\<lparr>summaries := [newStockSummary now (chooseLoans voucherToLoanLazy now w)]\<rparr>,
              Json200 (respond aggr (newStockSummary now (chooseLoans voucherToLoanLazy now w)) q)))"
  by (simp add: getStockSummary_def Let_def)

text \<open>
  C8. When there is no snapshot and the lookup itself succeeds, a query synchronises
  first: vouchers when they can be counted and read and are not empty, the day-books
  otherwise. If the new snapshot can be saved the query is answered from it and it is
  now the one stored snapshot. If the save fails the answer is still a success: no data,
  page 1 of 0, every count, amount and the overdue rate 0, and the store unchanged. In
  neither case is an error status sent.
\<close>

theorem query_lazy_sync:
  "summaries w = [] \<and> \<not> fails w SummaryFindOne \<longrightarrow>
     (fails w SummarySave \<longrightarrow>
        getStockSummary aggr now w q = (w, Json200 (emptyBody now q))) \<and>
     (\<not> fails w SummarySave \<longrightarrow>
        (\<exists>ls. ls = (if \<not> fails w VoucherCount \<and> \<not> fails w VoucherFind \<and> vouchers w \<noteq> []
                    then map (voucherToLoanLazy now) (vouchers w)
                    else extractLoanDataFromDayBooks now w) \<and>
              getStockSummary aggr now w q =
                (w\<lparr>summaries := [newStockSummary now ls]\<rparr>,
                 Json200 (respond aggr (newStockSummary now ls) q)))) \<and>
     (\<exists>body. snd (getStockSummary aggr now w q) = Json200 body) \<and>
     qb_success (emptyBody now q) \<and>
     qb_data (emptyBody now q) = [] \<and>
     qb_totalItems (emptyBody now q) = 0 \<and>
     qb_totalPages (emptyBody now q) = Some 0 \<and>
     qb_jewelTypeSummary (emptyBody now q) = [] \<and>
     qb_summary (emptyBody now q) =
       \<lparr> fs_totalLoans = 0, fs_activeLoans = 0, fs_overdueLoans = 0, fs_closedLoans = 0,
         fs_totalActiveLoanAmount = 0, fs_totalOverdueLoanAmount = 0,
         fs_totalLoanAmount = 0, fs_overdueRate = 0 \<rparr> \<and>
     qb_overallSummary (emptyBody now q) =
       \<lparr> os_totalLoans = 0, os_activeLoans = 0, os_overdueLoans = 0, os_closedLoans = 0,
         os_totalLoanAmount = 0, os_overdueRate = 0, os_lastUpdated = now \<rparr>"
proof
  assume h: "summaries w = [] \<and> \<not> fails w SummaryFindOne"
  then have g: "getStockSummary aggr now w q =
       (if fails w SummarySave then (w, Json200 (emptyBody now q))
        else (w\<lparr>summaries := [newStockSummary now (chooseLoans voucherToLoanLazy now w)]\<rparr>,
              Json200 (respond aggr (newStockSummary now (chooseLoans voucherToLoanLazy now w)) q)))"
    by (simp add: lazy_sync_ok)
  have a: "fails w SummarySave \<longrightarrow>
        getStockSummary aggr now w q = (w, Json200 (emptyBody now q))"
    by (simp add: g)
  have b: "\<not> fails w SummarySave \<longrightarrow>
        (\<exists>ls. ls = (if \<not> fails w VoucherCount \<and> \<not> fails w VoucherFind \<and> vouchers w \<noteq> []
                    then map (voucherToLoanLazy now) (vouchers w)
                    else extractLoanDataFromDayBooks now w) \<and>
              getStockSummary aggr now w q =
                (w\<lparr>summaries := [newStockSummary now ls]\<rparr>,
                 Json200 (respond aggr (newStockSummary now ls) q)))"
    by (simp add: g chooseLoans_eq)
  have c: "\<exists>body. snd (getStockSummary aggr now w q) = Json200 body"
    by (simp add: g)
  have d: "qb_success (emptyBody now q) \<and>
     qb_data (emptyBody now q) = [] \<and>
     qb_totalItems (emptyBody now q) = 0 \<and>
     qb_totalPages (emptyBody now q) = Some 0 \<and>
     qb_jewelTypeSummary (emptyBody now q) = [] \<and>
     qb_summary (emptyBody now q) =
       \<lparr> fs_totalLoans = 0, fs_activeLoans = 0, fs_overdueLoans = 0, fs_closedLoans = 0,
         fs_totalActiveLoanAmount = 0, fs_totalOverdueLoanAmount = 0,
         fs_totalLoanAmount = 0, fs_overdueRate = 0 \<rparr> \<and>
     qb_overallSummary (emptyBody now q) =
       \<lparr> os_totalLoans = 0, os_activeLoans = 0, os_overdueLoans = 0, os_closedLoans = 0,
         os_totalLoanAmount = 0, os_overdueRate = 0, os_lastUpdated = now \<rparr>"
    by (simp add: emptyBody_def)
  from a b c d show "(fails w SummarySave \<longrightarrow>
        getStockSummary aggr now w q = (w, Json200 (emptyBody now q))) \<and>
     (\<not> fails w SummarySave \<longrightarrow>
        (\<exists>ls. ls = (if \<not> fails w VoucherCount \<and> \<not> fails w VoucherFind \<and> vouchers w \<noteq> []
                    then map (voucherToLoanLazy now) (vouchers w)
                    else extractLoanDataFromDayBooks now w) \<and>
              getStockSummary aggr now w q =
                (w\<lparr>summaries := [newStockSummary now ls]\<rparr>,
                 Json200 (respond aggr (newStockSummary now ls) q)))) \<and>
     (\<exists>body. snd (getStockSummary aggr now w q) = Json200 body) \<and>
     qb_success (emptyBody now q) \<and>
     qb_data (emptyBody now q) = [] \<and>
     qb_totalItems (emptyBody now q) = 0 \<and>
     qb_totalPages (emptyBody now q) = Some 0 \<and>
     qb_jewelTypeSummary (emptyBody now q) = [] \<and>
     qb_summary (emptyBody now q) =
       \<lparr> fs_totalLoans = 0, fs_activeLoans = 0, fs_overdueLoans = 0, fs_closedLoans = 0,
         fs_totalActiveLoanAmount = 0, fs_totalOverdueLoanAmount = 0,
         fs_totalLoanAmount = 0, fs_overdueRate = 0 \<rparr> \<and>
     qb_overallSummary (emptyBody now q) =
       \<lparr> os_totalLoans = 0, os_activeLoans = 0, os_overdueLoans = 0, os_closedLoans = 0,
         os_totalLoanAmount = 0, os_overdueRate = 0, os_lastUpdated = now \<rparr>"
    by blast
qed

theorem query_lazy_sync_witness:
  "getStockSummary exampleAggr 7 (ledgerWorld\<lparr>failing := [VoucherCount, DayBookFind, SummarySave]\<rparr>) noFilters
     = (ledgerWorld\<lparr>failing := [VoucherCount, DayBookFind, SummarySave]\<rparr>, Json200 (emptyBody 7 noFilters)) \<and>
   qb_data (emptyBody 7 noFilters) = [] \<and>
   qb_totalItems (emptyBody 7 noFilters) = 0 \<and>
   fs_overdueRate (qb_summary (emptyBody 7 noFilters)) = 0 \<and>
   map (map sourceType \<circ> loans) (summaries (fst (getStockSummary exampleAggr 0 ledgerWorld noFilters)))
     = [[''daybook'', ''daybook'']]"
proof -
  let ?w = "ledgerWorld\<lparr>failing := [VoucherCount, DayBookFind, SummarySave]\<rparr>"
  have h: "summaries ?w = [] \<and> \<not> fails ?w SummaryFindOne" "fails ?w SummarySave"
    by (simp_all add: ledgerWorld_def emptyWorld_def fails_def)
  have a: "getStockSummary exampleAggr 7 ?w noFilters = (?w, Json200 (emptyBody 7 noFilters))"
    "qb_data (emptyBody 7 noFilters) = []"
    "qb_totalItems (emptyBody 7 noFilters) = 0"
    "fs_overdueRate (qb_summary (emptyBody 7 noFilters)) = 0"
    using query_lazy_sync [of ?w exampleAggr 7 noFilters] h by simp_all
  have h2: "summaries ledgerWorld = [] \<and> \<not> fails ledgerWorld SummaryFindOne"
    "\<not> fails ledgerWorld SummarySave" "vouchers ledgerWorld = []"
    by (simp_all add: ledgerWorld_def emptyWorld_def fails_def)
  from query_lazy_sync [of ledgerWorld exampleAggr 0 noFilters] h2 obtain ls where
    l: "ls = (if \<not> fails ledgerWorld VoucherCount \<and> \<not> fails ledgerWorld VoucherFind \<and>
                 vouchers ledgerWorld \<noteq> []
              then map (voucherToLoanLazy 0) (vouchers ledgerWorld)
              else extractLoanDataFromDayBooks 0 ledgerWorld)"
    and g: "getStockSummary exampleAggr 0 ledgerWorld noFilters =
                (ledgerWorld\<lparr>summaries := [newStockSummary 0 ls]\<rparr>,
                 Json200 (respond exampleAggr (newStockSummary 0 ls) noFilters))"
    by blast
  have b: "map (map sourceType \<circ> loans)
      (summaries (fst (getStockSummary exampleAggr 0 ledgerWorld noFilters)))
     = [[''daybook'', ''daybook'']]"
    using h2 by (simp add: g l newStockSummary_def ledgerWorld_loans disbursedLoan_fields
        closedLoan_fields)
  from a b show ?thesis by blast
qed







lemma applyFilters_eq: "applyFilters q ls = filter (passesFilters q) ls"
proof -
  have "applyFilters q ls =
      filter (\<lambda>l. case jewelTypeFilter q of None \<Rightarrow> True
                  | Some j \<Rightarrow> j = [] \<or> j = ''all'' \<or> jewelType l = j)
       (filter (\<lambda>l. case statusFilter q of None \<Rightarrow> True
                  | Some st \<Rightarrow> if st = ''active'' \<or> st = ''overdue'' \<or> st = ''closed''
                               then loanStatus l = st else True)
         (filter (\<lambda>l. case dateFilter q of None \<Rightarrow> True | Some d \<Rightarrow> dateMatches d l)
           (filter (\<lambda>l. case search q of None \<Rightarrow> True | Some s \<Rightarrow> s = [] \<or> searchMatches s l)
             ls)))"
    by (cases "search q"; cases "dateFilter q"; cases "statusFilter q"; cases "jewelTypeFilter q")
       (auto simp: applyFilters_def truthy_def str_or_def Let_def)
  also have "\<dots> = filter (passesFilters q) ls"
    unfolding filter_filter
    by (rule filter_cong [OF refl]) (auto simp: passesFilters_def split: option.splits)
  finally show ?thesis .
qed



lemma applyFilters_page_limit [simp]:
  "applyFilters (q\<lparr>page := p, limit := n\<rparr>) ls = applyFilters q ls"
proof -
  have "passesFilters (q\<lparr>page := p, limit := n\<rparr>) = passesFilters q"
    by (rule ext) (simp add: passesFilters_def)
  then show ?thesis by (simp add: applyFilters_eq)
qed








lemma latestIndex_less: "latestIndex ss = Some i \<Longrightarrow> i < length ss"
  by (induction ss arbitrary: i) (auto split: option.splits if_splits)

lemma findIndex_None: "findIndex p xs = None \<longleftrightarrow> (\<forall>x \<in> set xs. \<not> p x)"
  by (induction xs) (auto split: option.splits)

lemma findIndex_Some:
  "findIndex p xs = Some k \<Longrightarrow> k < length xs \<and> p (xs ! k) \<and> (\<forall>j < k. \<not> p (xs ! j))"
proof (induction xs arbitrary: k)
  case Nil
  then show ?case by simp
next
  case (Cons x xs)
  show ?case
  proof (cases "p x")
    case True
    with Cons.prems show ?thesis by simp
  next
    case False
    with Cons.prems obtain i where i: "findIndex p xs = Some i" and k: "k = Suc i"
      by (auto split: option.splits)
    from Cons.IH [OF i] have "i < length xs \<and> p (xs ! i) \<and> (\<forall>j < i. \<not> p (xs ! j))" .
    with False k show ?thesis by (auto simp: nth_Cons split: nat.splits)
  qed
qed

lemma setLoanStatus_fields:
  "status (setLoanStatus now st l) = Some st"
  "loanStatus (setLoanStatus now st l) =
     (if st = ''Closed'' then ''closed'' else if st = ''Overdue'' then ''overdue'' else ''active'')"
  "st = ''Closed'' \<Longrightarrow> closedDate (setLoanStatus now st l) = Some now"
  "st = ''Closed'' \<Longrightarrow> repaidAmount (setLoanStatus now st l) = overallLoanAmount l"
  "st = ''Closed'' \<Longrightarrow> balanceAmount (setLoanStatus now st l) = Some 0"
  "st = ''Closed'' \<Longrightarrow> paymentProgress (setLoanStatus now st l) = 100"
  "overallLoanAmount (setLoanStatus now st l) = overallLoanAmount l"
  by (simp_all add: setLoanStatus_def Let_def)

lemma valid_status_iff:
  "st \<in> set (map Some [''Active'', ''Partial'', ''Overdue'', ''Closed'']) \<longleftrightarrow>
     st = Some ''Active'' \<or> st = Some ''Partial'' \<or> st = Some ''Overdue'' \<or> st = Some ''Closed''"
  by auto

lemma update_invalid:
  "st \<noteq> Some ''Active'' \<Longrightarrow> st \<noteq> Some ''Partial'' \<Longrightarrow> st \<noteq> Some ''Overdue'' \<Longrightarrow>
   st \<noteq> Some ''Closed'' \<Longrightarrow>
     updateVoucherStatus now w ident st = (w, Status400 ''Invalid status provided'')"
  unfolding updateVoucherStatus_def valid_status_iff by simp

lemma update_valid:
  "s = ''Active'' \<or> s = ''Partial'' \<or> s = ''Overdue'' \<or> s = ''Closed'' \<Longrightarrow>
   \<not> fails w SummaryFindOne \<Longrightarrow>
     updateVoucherStatus now w ident (Some s) =
       (case latestIndex (summaries w) of
          None \<Rightarrow> (w, Status404 ''Stock summary not found'')
        | Some i \<Rightarrow>
           (case findIndex (matchesId ident) (loans (summaries w ! i)) of
              None \<Rightarrow> (w, Status404 ''Loan not found'')
            | Some k \<Rightarrow>
               if fails w SummarySave then (w, Status500 ''Error updating loan status'')
               else (w\<lparr>summaries := (summaries w)
                        [i := (summaries w ! i)
                           \<lparr> loans := (loans (summaries w ! i))
                                        [k := setLoanStatus now s (loans (summaries w ! i) ! k)],
                             lastUpdated := now \<rparr>]\<rparr>,
                     Json200 (setLoanStatus now s (loans (summaries w ! i) ! k)))))"
  unfolding updateVoucherStatus_def valid_status_iff
  by (auto simp: Let_def split: option.splits)

text \<open>
  C6. A status update with a status other than \<open>Active\<close>, \<open>Partial\<close>, \<open>Overdue\<close> and
  \<open>Closed\<close> (or with none) is rejected with status 400 and changes nothing. With a valid
  status and a snapshot lookup that succeeds, it answers 404 when there is no snapshot
  and when no loan of the current snapshot has the identifier as its own id or as its
  voucher reference. Otherwise, when the save succeeds, the first such loan gets the new
  status and the \<open>loanStatus\<close> \<open>closed\<close> for \<open>Closed\<close>, \<open>overdue\<close> for \<open>Overdue\<close> and \<open>active\<close>
  for the rest, never \<open>inactive\<close>; for \<open>Closed\<close> it also gets \<open>closedDate = now\<close>,
  \<open>repaidAmount = overallLoanAmount\<close>, \<open>balanceAmount = 0\<close> and \<open>paymentProgress = 100\<close>. The
  updated loan is the answer, and the snapshot is saved with it.
\<close>

theorem set_status_rules:
  "(st \<noteq> Some ''Active'' \<and> st \<noteq> Some ''Partial'' \<and> st \<noteq> Some ''Overdue'' \<and> st \<noteq> Some ''Closed'' \<longrightarrow>
      updateVoucherStatus now w ident st = (w, Status400 ''Invalid status provided'')) \<and>
   ((s = ''Active'' \<or> s = ''Partial'' \<or> s = ''Overdue'' \<or> s = ''Closed'') \<and>
    \<not> fails w SummaryFindOne \<longrightarrow>
      (summaries w = [] \<longrightarrow>
         updateVoucherStatus now w ident (Some s) = (w, Status404 ''Stock summary not found'')) \<and>
      (\<forall>i. latestIndex (summaries w) = Some i \<and>
            (\<forall>l \<in> set (loans (summaries w ! i)). loan_id l \<noteq> Some ident \<and> voucherId l \<noteq> Some ident) \<longrightarrow>
         updateVoucherStatus now w ident (Some s) = (w, Status404 ''Loan not found'')) \<and>
      (\<forall>i k. latestIndex (summaries w) = Some i \<and>
              findIndex (matchesId ident) (loans (summaries w ! i)) = Some k \<and>
              \<not> fails w SummarySave \<longrightarrow>
         (\<exists>old new.
            old = loans (summaries w ! i) ! k \<and>
            i < length (summaries w) \<and> k < length (loans (summaries w ! i)) \<and>
            (loan_id old = Some ident \<or> voucherId old = Some ident) \<and>
            updateVoucherStatus now w ident (Some s) =
              (w\<lparr>summaries := (summaries w)
                    [i := (summaries w ! i)\<lparr> loans := (loans (summaries w ! i))[k := new],
                                             lastUpdated := now \<rparr>]\<rparr>,
               Json200 new) \<and>
            status new = Some s \<and>
            loanStatus new =
              (if s = ''Closed'' then ''closed'' else if s = ''Overdue'' then ''overdue'' else ''active'') \<and>
            loanStatus new \<noteq> ''inactive'' \<and>
            (s = ''Closed'' \<longrightarrow>
               closedDate new = Some now \<and> repaidAmount new = overallLoanAmount old \<and>
               overallLoanAmount new = overallLoanAmount old \<and>
               balanceAmount new = Some 0 \<and> paymentProgress new = 100))))"
proof -
  have a: "st \<noteq> Some ''Active'' \<and> st \<noteq> Some ''Partial'' \<and> st \<noteq> Some ''Overdue'' \<and> st \<noteq> Some ''Closed'' \<longrightarrow>
      updateVoucherStatus now w ident st = (w, Status400 ''Invalid status provided'')"
    by (simp add: update_invalid)
  have b: "(summaries w = [] \<longrightarrow>
         updateVoucherStatus now w ident (Some s) = (w, Status404 ''Stock summary not found'')) \<and>
      (\<forall>i. latestIndex (summaries w) = Some i \<and>
            (\<forall>l \<in> set (loans (summaries w ! i)). loan_id l \<noteq> Some ident \<and> voucherId l \<noteq> Some ident) \<longrightarrow>
         updateVoucherStatus now w ident (Some s) = (w, Status404 ''Loan not found'')) \<and>
      (\<forall>i k. latestIndex (summaries w) = Some i \<and>
              findIndex (matchesId ident) (loans (summaries w ! i)) = Some k \<and>
              \<not> fails w SummarySave \<longrightarrow>
         (\<exists>old new.
            old = loans (summaries w ! i) ! k \<and>
            i < length (summaries w) \<and> k < length (loans (summaries w ! i)) \<and>
            (loan_id old = Some ident \<or> voucherId old = Some ident) \<and>
            updateVoucherStatus now w ident (Some s) =
              (w\<lparr>summaries := (summaries w)
                    [i := (summaries w ! i)\<lparr> loans := (loans (summaries w ! i))[k := new],
                                             lastUpdated := now \<rparr>]\<rparr>,
               Json200 new) \<and>
            status new = Some s \<and>
            loanStatus new =
              (if s = ''Closed'' then ''closed'' else if s = ''Overdue'' then ''overdue'' else ''active'') \<and>
            loanStatus new \<noteq> ''inactive'' \<and>
            (s = ''Closed'' \<longrightarrow>
               closedDate new = Some now \<and> repaidAmount new = overallLoanAmount old \<and>
               overallLoanAmount new = overallLoanAmount old \<and>
               balanceAmount new = Some 0 \<and> paymentProgress new = 100)))"
    if valid: "s = ''Active'' \<or> s = ''Partial'' \<or> s = ''Overdue'' \<or> s = ''Closed''"
      and found: "\<not> fails w SummaryFindOne"
  proof (intro conjI allI impI)
    assume "summaries w = []"
    then show "updateVoucherStatus now w ident (Some s) = (w, Status404 ''Stock summary not found'')"
      by (simp add: update_valid [OF valid found])
  next
    fix i
    assume h: "latestIndex (summaries w) = Some i \<and>
      (\<forall>l \<in> set (loans (summaries w ! i)). loan_id l \<noteq> Some ident \<and> voucherId l \<noteq> Some ident)"
    then have "findIndex (matchesId ident) (loans (summaries w ! i)) = None"
      by (simp add: findIndex_None matchesId_def)
    with h show "updateVoucherStatus now w ident (Some s) = (w, Status404 ''Loan not found'')"
      by (simp add: update_valid [OF valid found])
  next
    fix i k
    assume h: "latestIndex (summaries w) = Some i \<and>
      findIndex (matchesId ident) (loans (summaries w ! i)) = Some k \<and> \<not> fails w SummarySave"
    let ?old = "loans (summaries w ! i) ! k"
    let ?new = "setLoanStatus now s ?old"
    from h have i: "i < length (summaries w)" by (simp add: latestIndex_less)
    from h findIndex_Some [of "matchesId ident" "loans (summaries w ! i)" k]
    have k: "k < length (loans (summaries w ! i))" and m: "matchesId ident ?old"
      by simp_all
    have u: "updateVoucherStatus now w ident (Some s) =
        (w\<lparr>summaries := (summaries w)
              [i := (summaries w ! i)\<lparr> loans := (loans (summaries w ! i))[k := ?new],
                                       lastUpdated := now \<rparr>]\<rparr>,
         Json200 ?new)"
      using h by (simp add: update_valid [OF valid found])
    have ls: "loanStatus ?new \<noteq> ''inactive''"
      by (simp add: setLoanStatus_fields)
    show "\<exists>old new.
            old = loans (summaries w ! i) ! k \<and>
            i < length (summaries w) \<and> k < length (loans (summaries w ! i)) \<and>
            (loan_id old = Some ident \<or> voucherId old = Some ident) \<and>
            updateVoucherStatus now w ident (Some s) =
              (w\<lparr>summaries := (summaries w)
                    [i := (summaries w ! i)\<lparr> loans := (loans (summaries w ! i))[k := new],
                                             lastUpdated := now \<rparr>]\<rparr>,
               Json200 new) \<and>
            status new = Some s \<and>
            loanStatus new =
              (if s = ''Closed'' then ''closed'' else if s = ''Overdue'' then ''overdue'' else ''active'') \<and>
            loanStatus new \<noteq> ''inactive'' \<and>
            (s = ''Closed'' \<longrightarrow>
               closedDate new = Some now \<and> repaidAmount new = overallLoanAmount old \<and>
               overallLoanAmount new = overallLoanAmount old \<and>
               balanceAmount new = Some 0 \<and> paymentProgress new = 100)"
      apply (rule exI [of _ ?old])
      apply (rule exI [of _ ?new])
      using i k m u ls
      apply (simp add: setLoanStatus_fields matchesId_def)
      done
  qed
  from a b show ?thesis by blast
qed

theorem set_status_rules_witness:
  "updateVoucherStatus 20 storedWorld ''v2'' (Some ''Paid'')
     = (storedWorld, Status400 ''Invalid status provided'') \<and>
   updateVoucherStatus 20 storedWorld ''v2'' None
     = (storedWorld, Status400 ''Invalid status provided'') \<and>
   updateVoucherStatus 20 emptyWorld ''v2'' (Some ''Closed'')
     = (emptyWorld, Status404 ''Stock summary not found'') \<and>
   updateVoucherStatus 20 storedWorld ''zz'' (Some ''Closed'')
     = (storedWorld, Status404 ''Loan not found'') \<and>
   (\<exists>new. snd (updateVoucherStatus 20 storedWorld ''v2'' (Some ''Closed'')) = Json200 new \<and>
      status new = Some ''Closed'' \<and> loanStatus new = ''closed'' \<and> closedDate new = Some 20 \<and>
      repaidAmount new = 500 \<and> balanceAmount new = Some 0 \<and> paymentProgress new = 100) \<and>
   (\<exists>new. snd (updateVoucherStatus 20 storedWorld ''l1'' (Some ''Partial'')) = Json200 new \<and>
      status new = Some ''Partial'' \<and> loanStatus new = ''active'')"
proof -
  have f: "\<not> fails storedWorld SummaryFindOne" "\<not> fails storedWorld SummarySave"
    "\<not> fails emptyWorld SummaryFindOne" "summaries emptyWorld = []"
    by (simp_all add: fails_def storedWorld_def emptyWorld_def)
  have li: "latestIndex (summaries storedWorld) = Some 1"
    by (simp add: storedWorld_def emptyWorld_def staleSnapshot_def newStockSummary_def)
  have sn: "loans (summaries storedWorld ! 1) = storedLoans"
    by (simp add: storedWorld_def emptyWorld_def newStockSummary_def)
  have ids: "map loan_id storedLoans = [Some ''l1'', Some ''l2'']"
    "map voucherId storedLoans = [Some ''v1'', Some ''v2'']"
    "overallLoanAmount (storedLoans ! 1) = 500"
    by (simp_all add: storedLoans_def voucherToLoan_def Let_def dueYesterdayVoucher_def
        unpaidVoucher_def blankVoucher_def)
  have ids': "loan_id (storedLoans ! 0) = Some ''l1''" "loan_id (storedLoans ! 1) = Some ''l2''"
    "voucherId (storedLoans ! 0) = Some ''v1''" "voucherId (storedLoans ! 1) = Some ''v2''"
    "length storedLoans = 2"
    by (simp_all add: storedLoans_def voucherToLoan_def Let_def dueYesterdayVoucher_def
        unpaidVoucher_def blankVoucher_def)
  have fi: "findIndex (matchesId ''v2'') storedLoans = Some 1"
    "findIndex (matchesId ''l1'') storedLoans = Some 0"
    "\<forall>l \<in> set storedLoans. loan_id l \<noteq> Some ''zz'' \<and> voucherId l \<noteq> Some ''zz''"
    by (simp_all add: matchesId_def storedLoans_def voucherToLoan_def Let_def
        dueYesterdayVoucher_def unpaidVoucher_def blankVoucher_def)
  have a: "updateVoucherStatus 20 storedWorld ''v2'' (Some ''Paid'')
       = (storedWorld, Status400 ''Invalid status provided'')"
    "updateVoucherStatus 20 storedWorld ''v2'' None
       = (storedWorld, Status400 ''Invalid status provided'')"
    using set_status_rules [where st = "Some ''Paid''" and now = 20 and w = storedWorld
        and ident = "''v2''" and s = "''Closed''"]
      set_status_rules [where st = None and now = 20 and w = storedWorld
        and ident = "''v2''" and s = "''Closed''"]
    by simp_all
  have b: "updateVoucherStatus 20 emptyWorld ''v2'' (Some ''Closed'')
       = (emptyWorld, Status404 ''Stock summary not found'')"
    using set_status_rules [where st = None and now = 20 and w = emptyWorld
        and ident = "''v2''" and s = "''Closed''"] f
    by simp
  have c: "updateVoucherStatus 20 storedWorld ''zz'' (Some ''Closed'')
       = (storedWorld, Status404 ''Loan not found'')"
    using set_status_rules [where st = None and now = 20 and w = storedWorld
        and ident = "''zz''" and s = "''Closed''"] f li sn fi(3)
    by simp
  have d: "\<exists>new. snd (updateVoucherStatus 20 storedWorld ''v2'' (Some ''Closed'')) = Json200 new \<and>
      status new = Some ''Closed'' \<and> loanStatus new = ''closed'' \<and> closedDate new = Some 20 \<and>
      repaidAmount new = 500 \<and> balanceAmount new = Some 0 \<and> paymentProgress new = 100"
    using set_status_rules [where st = None and now = 20 and w = storedWorld
        and ident = "''v2''" and s = "''Closed''"] f li sn fi(1) ids(3)
    by auto
  have e: "\<exists>new. snd (updateVoucherStatus 20 storedWorld ''l1'' (Some ''Partial'')) = Json200 new \<and>
      status new = Some ''Partial'' \<and> loanStatus new = ''active''"
    using set_status_rules [where st = None and now = 20 and w = storedWorld
        and ident = "''l1''" and s = "''Partial''"] f li sn fi(2)
    by auto
  from a b c d e show ?thesis by blast
qed

lemma sweep_eq:
  "sweep now ls n = (map (sweptLoan now) ls, n + length (filter (newlyOverdue now) ls))"
  by (induction ls arbitrary: n) (simp_all add: sweptLoan_def)

lemma updateOverdue_eq:
  "\<not> fails w SummaryFindOne \<Longrightarrow> latestIndex (summaries w) = Some i \<Longrightarrow>
     updateOverdueStatus now w =
       (if 0 < length (filter (newlyOverdue now) (loans (summaries w ! i)))
        then (if fails w SummarySave then (w, Status500 ''Error updating overdue status'')
              else (w\<lparr>summaries := (summaries w)
                       [i := (summaries w ! i)
                          \<lparr> loans := map (sweptLoan now) (loans (summaries w ! i)),
                            lastUpdated := now \<rparr>]\<rparr>,
                    Json200 (length (filter (newlyOverdue now) (loans (summaries w ! i))))))
        else (w, Json200 0))"
  by (simp add: updateOverdueStatus_def sweep_eq Let_def)

lemma latestIndex_update:
  "latestIndex ss = Some i \<Longrightarrow> \<forall>s \<in> set ss. lastUpdated s \<le> lastUpdated s' \<Longrightarrow>
     latestIndex (ss[i := s']) = Some i"
proof (induction ss arbitrary: i)
  case Nil
  then show ?case by simp
next
  case (Cons s ss)
  show ?case
  proof (cases "latestIndex ss")
    case None
    with Cons.prems show ?thesis by simp
  next
    case (Some j)
    then have j: "j < length ss" by (rule latestIndex_less)
    show ?thesis
    proof (cases "lastUpdated (ss ! j) > lastUpdated s")
      case True
      with Some Cons.prems have i: "i = Suc j" by simp
      from Cons.prems have "\<forall>x \<in> set ss. lastUpdated x \<le> lastUpdated s'" by simp
      with Cons.IH [OF Some] have "latestIndex (ss[j := s']) = Some j" by simp
      moreover from Cons.prems j have "lastUpdated (ss ! j) \<le> lastUpdated s'" by simp
      ultimately show ?thesis using i j True by simp
    next
      case False
      with Some Cons.prems have i: "i = 0" by simp
      from Cons.prems j have "lastUpdated (ss ! j) \<le> lastUpdated s'" by simp
      with i Some show ?thesis by simp
    qed
  qed
qed

lemma newlyOverdue_iff:
  "newlyOverdue now l \<longleftrightarrow> loanStatus l = ''active'' \<and> (\<exists>d. dueDate l = Some d \<and> d < now)"
  by (cases "dueDate l") (simp_all add: newlyOverdue_def date_lt_def)

lemma sweptLoan_settled:
  "\<not> (loanStatus l = ''active'' \<and> (\<exists>d. dueDate l = Some d \<and> now \<le> d \<and> d < now')) \<Longrightarrow>
     \<not> newlyOverdue now' (sweptLoan now l)"
  by (cases "dueDate l") (auto simp: sweptLoan_def newlyOverdue_def markOverdue_def date_lt_def)

lemma sweep_rerun:
  assumes f: "\<not> fails w SummaryFindOne" "\<not> fails w SummarySave"
    and li: "latestIndex (summaries w) = Some i"
    and le: "\<forall>s \<in> set (summaries w). lastUpdated s \<le> now"
    and nn: "\<forall>l \<in> set (loans (summaries w ! i)).
          \<not> (loanStatus l = ''active'' \<and> (\<exists>d. dueDate l = Some d \<and> now \<le> d \<and> d < now'))"
  shows "updateOverdueStatus now' (fst (updateOverdueStatus now w))
           = (fst (updateOverdueStatus now w), Json200 0)"
proof -
  let ?ls = "loans (summaries w ! i)"
  let ?snap = "(summaries w ! i)\<lparr> loans := map (sweptLoan now) ?ls, lastUpdated := now \<rparr>"
  from li have i: "i < length (summaries w)" by (rule latestIndex_less)
  have settled: "filter (newlyOverdue now') (map (sweptLoan now) ?ls) = []"
    using nn by (simp add: filter_empty_conv sweptLoan_settled)
  show ?thesis
  proof (cases "0 < length (filter (newlyOverdue now) ?ls)")
    case True
    let ?w' = "w\<lparr>summaries := (summaries w)[i := ?snap]\<rparr>"
    from True f li have w': "fst (updateOverdueStatus now w) = ?w'"
      by (simp add: updateOverdue_eq)
    have f': "\<not> fails ?w' SummaryFindOne" using f by (simp add: fails_def)
    have "latestIndex ((summaries w)[i := ?snap]) = Some i"
      using li le by (intro latestIndex_update) simp_all
    then have li': "latestIndex (summaries ?w') = Some i" by simp
    have sn: "loans (summaries ?w' ! i) = map (sweptLoan now) ?ls"
      using i by simp
    have "updateOverdueStatus now' ?w' = (?w', Json200 0)"
      unfolding updateOverdue_eq [OF f' li'] sn settled by simp
    with w' show ?thesis by simp
  next
    case False
    then have none: "filter (newlyOverdue now) ?ls = []" by simp
    then have same: "map (sweptLoan now) ?ls = ?ls"
      by (simp add: filter_empty_conv sweptLoan_def map_idI)
    from False f li have w': "fst (updateOverdueStatus now w) = w"
      by (simp add: updateOverdue_eq)
    have "updateOverdueStatus now' w = (w, Json200 0)"
      using settled unfolding same by (simp add: updateOverdue_eq [OF f(1) li])
    with w' show ?thesis by simp
  qed
qed

lemma markOverdue_eq:
  "markOverdue now l =
     l\<lparr> status := Some ''Overdue'', loanStatus := ''overdue'',
        daysOverdue := (case dueDate l of None \<Rightarrow> 0
                        | Some d \<Rightarrow> \<lceil>(of_int (now - d) :: rat) / 86400000\<rceil>) \<rparr>"
  by (cases "dueDate l") (simp_all add: markOverdue_def days_between_Some, simp add: days_between_def)

text \<open>
  C7. With a snapshot lookup that succeeds and a current snapshot, the overdue sweep
  changes exactly the loans whose \<open>loanStatus\<close> is \<open>active\<close> and whose due date lies before
  \<open>now\<close>: their status becomes \<open>Overdue\<close>, their \<open>loanStatus\<close> \<open>overdue\<close> and their
  \<open>daysOverdue\<close> the days since the due date, rounded up; every other loan stays as it
  is. The answer is the number of loans changed. When that number is 0 nothing is saved;
  otherwise the snapshot is saved with the swept loans (a save that fails gives
  status 500 and leaves the store as it was). After a sweep that was saved, in a store
  none of whose snapshots is stamped later than \<open>now\<close>, another sweep at a time by which
  no further active loan has fallen due changes nothing and answers 0.
\<close>

theorem overdue_sweep:
  "(newlyOverdue now l \<longleftrightarrow> loanStatus l = ''active'' \<and> (\<exists>d. dueDate l = Some d \<and> d < now)) \<and>
   sweptLoan now l =
     (if loanStatus l = ''active'' \<and> (\<exists>d. dueDate l = Some d \<and> d < now)
      then l\<lparr> status := Some ''Overdue'', loanStatus := ''overdue'',
              daysOverdue := (case dueDate l of None \<Rightarrow> 0
                              | Some d \<Rightarrow> \<lceil>(of_int (now - d) :: rat) / 86400000\<rceil>) \<rparr>
      else l) \<and>
   (newlyOverdue now l \<longrightarrow> sweptLoan now l \<noteq> l) \<and>
   (\<not> fails w SummaryFindOne \<and> latestIndex (summaries w) = Some i \<longrightarrow>
      (\<exists>n. n = length (filter (newlyOverdue now) (loans (summaries w ! i))) \<and>
         (n = 0 \<longrightarrow> updateOverdueStatus now w = (w, Json200 0)) \<and>
         (0 < n \<and> \<not> fails w SummarySave \<longrightarrow>
            updateOverdueStatus now w =
              (w\<lparr>summaries := (summaries w)
                    [i := (summaries w ! i)
                       \<lparr> loans := map (sweptLoan now) (loans (summaries w ! i)),
                         lastUpdated := now \<rparr>]\<rparr>,
               Json200 n)) \<and>
         (0 < n \<and> fails w SummarySave \<longrightarrow>
            updateOverdueStatus now w = (w, Status500 ''Error updating overdue status'')) \<and>
         (\<not> fails w SummarySave \<and>
          (\<forall>s \<in> set (summaries w). lastUpdated s \<le> now) \<and>
          (\<forall>x \<in> set (loans (summaries w ! i)).
             \<not> (loanStatus x = ''active'' \<and> (\<exists>d. dueDate x = Some d \<and> now \<le> d \<and> d < now'))) \<longrightarrow>
            updateOverdueStatus now' (fst (updateOverdueStatus now w))
              = (fst (updateOverdueStatus now w), Json200 0))))"
proof -
  have a: "newlyOverdue now l \<longleftrightarrow> loanStatus l = ''active'' \<and> (\<exists>d. dueDate l = Some d \<and> d < now)"
    by (rule newlyOverdue_iff)
  have b: "sweptLoan now l =
     (if loanStatus l = ''active'' \<and> (\<exists>d. dueDate l = Some d \<and> d < now)
      then l\<lparr> status := Some ''Overdue'', loanStatus := ''overdue'',
              daysOverdue := (case dueDate l of None \<Rightarrow> 0
                              | Some d \<Rightarrow> \<lceil>(of_int (now - d) :: rat) / 86400000\<rceil>) \<rparr>
      else l)"
    unfolding a [symmetric] by (simp add: sweptLoan_def markOverdue_eq)
  have c: "newlyOverdue now l \<longrightarrow> sweptLoan now l \<noteq> l"
  proof
    assume h: "newlyOverdue now l"
    then have "loanStatus (sweptLoan now l) = ''overdue''" "loanStatus l = ''active''"
      by (simp_all add: sweptLoan_def markOverdue_def newlyOverdue_def)
    then show "sweptLoan now l \<noteq> l" by auto
  qed
  have d: "\<exists>n. n = length (filter (newlyOverdue now) (loans (summaries w ! i))) \<and>
         (n = 0 \<longrightarrow> updateOverdueStatus now w = (w, Json200 0)) \<and>
         (0 < n \<and> \<not> fails w SummarySave \<longrightarrow>
            updateOverdueStatus now w =
              (w\<lparr>summaries := (summaries w)
                    [i := (summaries w ! i)
                       \<lparr> loans := map (sweptLoan now) (loans (summaries w ! i)),
                         lastUpdated := now \<rparr>]\<rparr>,
               Json200 n)) \<and>
         (0 < n \<and> fails w SummarySave \<longrightarrow>
            updateOverdueStatus now w = (w, Status500 ''Error updating overdue status'')) \<and>
         (\<not> fails w SummarySave \<and>
          (\<forall>s \<in> set (summaries w). lastUpdated s \<le> now) \<and>
          (\<forall>x \<in> set (loans (summaries w ! i)).
             \<not> (loanStatus x = ''active'' \<and> (\<exists>d. dueDate x = Some d \<and> now \<le> d \<and> d < now'))) \<longrightarrow>
            updateOverdueStatus now' (fst (updateOverdueStatus now w))
              = (fst (updateOverdueStatus now w), Json200 0))"
    if f: "\<not> fails w SummaryFindOne" and li: "latestIndex (summaries w) = Some i"
  proof -
    have r: "\<not> fails w SummarySave \<and>
          (\<forall>s \<in> set (summaries w). lastUpdated s \<le> now) \<and>
          (\<forall>x \<in> set (loans (summaries w ! i)).
             \<not> (loanStatus x = ''active'' \<and> (\<exists>d. dueDate x = Some d \<and> now \<le> d \<and> d < now'))) \<longrightarrow>
            updateOverdueStatus now' (fst (updateOverdueStatus now w))
              = (fst (updateOverdueStatus now w), Json200 0)"
      using sweep_rerun [OF f _ li] by blast
    show ?thesis
      using r by (simp add: updateOverdue_eq [OF f li])
  qed
  from a b c d show ?thesis by blast
qed

theorem overdue_sweep_witness:
  "snd (updateOverdueStatus 86400000 storedWorld) = Json200 1 \<and>
   map (map loanStatus \<circ> loans) (summaries (fst (updateOverdueStatus 86400000 storedWorld)))
     = [[''closed''], [''overdue'', ''active'']] \<and>
   map (map daysOverdue \<circ> loans) (summaries (fst (updateOverdueStatus 86400000 storedWorld)))
     = [[0], [1, 0]] \<and>
   map lastUpdated (summaries (fst (updateOverdueStatus 86400000 storedWorld))) = [5, 86400000] \<and>
   updateOverdueStatus 86400000 (fst (updateOverdueStatus 86400000 storedWorld))
     = (fst (updateOverdueStatus 86400000 storedWorld), Json200 0) \<and>
   updateOverdueStatus 0 storedWorld = (storedWorld, Json200 0)"
proof -
  define a where "a = (voucherToLoan 0 dueYesterdayVoucher)\<lparr> loan_id := Some ''l1'' \<rparr>"
  define b where "b = (voucherToLoan 0 unpaidVoucher)\<lparr> loan_id := Some ''l2'',
      loanStatus := ''active'', dueDate := Some 86400000 \<rparr>"
  have two: "storedLoans = [a, b]"
    by (simp add: storedLoans_def a_def b_def)
  have f: "\<not> fails storedWorld SummaryFindOne" "\<not> fails storedWorld SummarySave"
    by (simp_all add: fails_def storedWorld_def emptyWorld_def)
  have li: "latestIndex (summaries storedWorld) = Some 1"
    by (simp add: storedWorld_def emptyWorld_def staleSnapshot_def newStockSummary_def)
  have ss: "summaries storedWorld = [staleSnapshot, newStockSummary 10 storedLoans]"
    by (simp add: storedWorld_def emptyWorld_def)
  have sn: "loans (summaries storedWorld ! 1) = [a, b]"
    by (simp add: ss newStockSummary_def two)
  have l: "loanStatus a = ''active''" "dueDate a = Some 0"
    "loanStatus b = ''active''" "dueDate b = Some 86400000"
    "daysOverdue a = 0" "daysOverdue b = 0"
    by (simp_all add: a_def b_def voucherToLoan_def Let_def dueYesterdayVoucher_def
        unpaidVoucher_def blankVoucher_def date_lt_def)
  have n: "newlyOverdue 86400000 a" "\<not> newlyOverdue 86400000 b"
    "\<not> newlyOverdue 0 a" "\<not> newlyOverdue 0 b"
    by (simp_all add: newlyOverdue_def date_lt_def l)
  have cnt: "length (filter (newlyOverdue 86400000) [a, b]) = 1"
    "length (filter (newlyOverdue 0) [a, b]) = 0"
    by (simp_all add: n)
  have sw: "map (sweptLoan 86400000) [a, b] = [markOverdue 86400000 a, b]"
    by (simp add: n sweptLoan_def)
  have m: "loanStatus (markOverdue 86400000 a) = ''overdue''"
    "daysOverdue (markOverdue 86400000 a) = 1"
    by (simp_all add: markOverdue_def l days_between_def ceil_div_def ms_per_day_def)
  have st: "map loanStatus (loans staleSnapshot) = [''closed'']"
    "map daysOverdue (loans staleSnapshot) = [0]" "lastUpdated staleSnapshot = 5"
    by (simp_all add: staleSnapshot_def closedLoan_fields)
  have le: "\<forall>s \<in> set (summaries storedWorld). lastUpdated s \<le> 86400000"
    by (simp add: ss st newStockSummary_def)
  have nn: "\<forall>x \<in> set (loans (summaries storedWorld ! 1)).
      \<not> (loanStatus x = ''active'' \<and> (\<exists>d. dueDate x = Some d \<and> 86400000 \<le> d \<and> d < 86400000))"
    by simp
  from overdue_sweep [where now = 86400000 and now' = 86400000 and w = storedWorld and i = 1
      and l = a] f li
  obtain k where k: "k = length (filter (newlyOverdue 86400000) (loans (summaries storedWorld ! 1)))"
    and pos: "0 < k \<and> \<not> fails storedWorld SummarySave \<longrightarrow>
            updateOverdueStatus 86400000 storedWorld =
              (storedWorld\<lparr>summaries := (summaries storedWorld)
                    [1 := (summaries storedWorld ! 1)
                       \<lparr> loans := map (sweptLoan 86400000) (loans (summaries storedWorld ! 1)),
                         lastUpdated := 86400000 \<rparr>]\<rparr>,
               Json200 k)"
    and re: "\<not> fails storedWorld SummarySave \<and>
          (\<forall>s \<in> set (summaries storedWorld). lastUpdated s \<le> 86400000) \<and>
          (\<forall>x \<in> set (loans (summaries storedWorld ! 1)).
             \<not> (loanStatus x = ''active'' \<and> (\<exists>d. dueDate x = Some d \<and> 86400000 \<le> d \<and> d < 86400000))) \<longrightarrow>
            updateOverdueStatus 86400000 (fst (updateOverdueStatus 86400000 storedWorld))
              = (fst (updateOverdueStatus 86400000 storedWorld), Json200 0)"
    by blast
  have k1: "k = 1" unfolding k sn by (rule cnt(1))
  have run: "updateOverdueStatus 86400000 storedWorld =
      (storedWorld\<lparr>summaries := (summaries storedWorld)
          [1 := (summaries storedWorld ! 1)
             \<lparr> loans := map (sweptLoan 86400000) (loans (summaries storedWorld ! 1)),
               lastUpdated := 86400000 \<rparr>]\<rparr>,
       Json200 1)"
    using pos f(2) unfolding k1 by simp
  have again: "updateOverdueStatus 86400000 (fst (updateOverdueStatus 86400000 storedWorld))
     = (fst (updateOverdueStatus 86400000 storedWorld), Json200 0)"
    using re f(2) le nn by blast
  from overdue_sweep [where now = 0 and now' = 0 and w = storedWorld and i = 1 and l = a] f li
  obtain k0 where k0: "k0 = length (filter (newlyOverdue 0) (loans (summaries storedWorld ! 1)))"
    and z: "k0 = 0 \<longrightarrow> updateOverdueStatus 0 storedWorld = (storedWorld, Json200 0)"
    by blast
  have "k0 = 0" unfolding k0 sn by (rule cnt(2))
  with z have zero: "updateOverdueStatus 0 storedWorld = (storedWorld, Json200 0)"
    by blast
  have res: "snd (updateOverdueStatus 86400000 storedWorld) = Json200 1"
    "map (map loanStatus \<circ> loans) (summaries (fst (updateOverdueStatus 86400000 storedWorld)))
       = [[''closed''], [''overdue'', ''active'']]"
    "map (map daysOverdue \<circ> loans) (summaries (fst (updateOverdueStatus 86400000 storedWorld)))
       = [[0], [1, 0]]"
    "map lastUpdated (summaries (fst (updateOverdueStatus 86400000 storedWorld))) = [5, 86400000]"
    unfolding run sn sw by (simp_all add: ss m l st newStockSummary_def)
  from res again zero show ?thesis by blast
qed

lemma chooseLoans_weights:
  "x \<in> set (chooseLoans voucherToLoan today w) \<Longrightarrow> sourceType x = ''daybook'' \<Longrightarrow>
     grossWeight x = netWeight x"
  "y \<in> set (chooseLoans voucherToLoanLazy today w) \<Longrightarrow> sourceType y = ''daybook'' \<Longrightarrow>
     grossWeight y = netWeight y"
  using chooseLoans_cases [of x voucherToLoan today w]
    chooseLoans_cases [of y voucherToLoanLazy today w]
  by (auto simp: voucherToLoan_sourceType voucherToLoanLazy_sourceType extract_gross_net)

lemma weightsAgree_sync:
  "weightsAgree w \<Longrightarrow> weightsAgree (fst (createOrUpdateStockSummary aggr now w))"
proof (cases "fails w SummaryDeleteMany")
  case True
  assume "weightsAgree w"
  with True show ?thesis by (simp add: createOrUpdateStockSummary_def Let_def)
next
  case False
  then show ?thesis
    using chooseLoans_weights(1) [of _ now w]
    by (auto simp: weightsAgree_def sync_summaries newStockSummary_def)
qed

lemma weightsAgree_query:
  "weightsAgree w \<Longrightarrow> weightsAgree (fst (getStockSummary aggr now w q))"
  using chooseLoans_weights(2) [of _ now w]
  by (auto simp: weightsAgree_def getStockSummary_def Let_def newStockSummary_def
      split: option.splits)

lemma sweptLoan_keeps:
  "grossWeight (sweptLoan now l) = grossWeight l"
  "netWeight (sweptLoan now l) = netWeight l"
  "sourceType (sweptLoan now l) = sourceType l"
  by (simp_all add: sweptLoan_def markOverdue_keeps)

lemma in_set_update: "x \<in> set (xs[i := y]) \<Longrightarrow> x = y \<or> x \<in> set xs"
  using set_update_subset_insert [of xs i y] by auto

lemma weightsAgree_update:
  assumes inv: "weightsAgree w" and i: "i < length (summaries w)"
    and ls: "\<forall>l \<in> set ls'. sourceType l = ''daybook'' \<longrightarrow> grossWeight l = netWeight l"
  shows "weightsAgree (w\<lparr>summaries := (summaries w)[i := (summaries w ! i)\<lparr>loans := ls', lastUpdated := t\<rparr>]\<rparr>)"
  unfolding weightsAgree_def
proof (intro ballI impI)
  fix s l
  assume s: "s \<in> set (summaries (w\<lparr>summaries := (summaries w)[i := (summaries w ! i)\<lparr>loans := ls', lastUpdated := t\<rparr>]\<rparr>))"
    and l: "l \<in> set (loans s)" and d: "sourceType l = ''daybook''"
  from s have "s = (summaries w ! i)\<lparr>loans := ls', lastUpdated := t\<rparr> \<or> s \<in> set (summaries w)"
    by (simp add: in_set_update)
  then show "grossWeight l = netWeight l"
  proof
    assume "s = (summaries w ! i)\<lparr>loans := ls', lastUpdated := t\<rparr>"
    with l have "l \<in> set ls'" by simp
    with ls d show ?thesis by blast
  next
    assume "s \<in> set (summaries w)"
    with inv l d show ?thesis unfolding weightsAgree_def by blast
  qed
qed

lemma weightsAgree_sweep:
  assumes inv: "weightsAgree w"
  shows "weightsAgree (fst (updateOverdueStatus now w))"
proof (cases "fails w SummaryFindOne")
  case True
  with inv show ?thesis by (simp add: updateOverdueStatus_def)
next
  case False
  show ?thesis
  proof (cases "latestIndex (summaries w)")
    case None
    with inv False show ?thesis by (simp add: updateOverdueStatus_def)
  next
    case (Some i)
    then have i: "i < length (summaries w)" by (rule latestIndex_less)
    then have mem: "summaries w ! i \<in> set (summaries w)" by simp
    have "\<forall>l \<in> set (map (sweptLoan now) (loans (summaries w ! i))).
        sourceType l = ''daybook'' \<longrightarrow> grossWeight l = netWeight l"
      using inv mem by (auto simp: weightsAgree_def sweptLoan_keeps)
    from weightsAgree_update [OF inv i this] inv show ?thesis
      by (simp add: updateOverdue_eq [OF False Some])
  qed
qed

lemma weightsAgree_setStatus:
  assumes inv: "weightsAgree w"
  shows "weightsAgree (fst (updateVoucherStatus now w ident st))"
proof (cases "st = Some ''Active'' \<or> st = Some ''Partial'' \<or> st = Some ''Overdue'' \<or> st = Some ''Closed''")
  case False
  with inv show ?thesis by (simp add: update_invalid)
next
  case True
  then obtain s where st: "st = Some s"
    and valid: "s = ''Active'' \<or> s = ''Partial'' \<or> s = ''Overdue'' \<or> s = ''Closed''"
    by auto
  show ?thesis
  proof (cases "fails w SummaryFindOne")
    case True
    with inv show ?thesis by (simp add: updateVoucherStatus_def split: option.splits)
  next
    case False
    show ?thesis
    proof (cases "latestIndex (summaries w)")
      case None
      with inv show ?thesis by (simp add: st update_valid [OF valid False])
    next
      case (Some i)
      then have i: "i < length (summaries w)" by (rule latestIndex_less)
      then have mem: "summaries w ! i \<in> set (summaries w)" by simp
      show ?thesis
      proof (cases "findIndex (matchesId ident) (loans (summaries w ! i))")
        case None
        with inv Some show ?thesis by (simp add: st update_valid [OF valid False])
      next
        case k: (Some k)
        then have kl: "k < length (loans (summaries w ! i))"
          using findIndex_Some by blast
        let ?ls = "loans (summaries w ! i)"
        have old: "sourceType (?ls ! k) = ''daybook'' \<longrightarrow> grossWeight (?ls ! k) = netWeight (?ls ! k)"
          using inv mem kl by (auto simp: weightsAgree_def)
        have "\<forall>l \<in> set (?ls[k := setLoanStatus now s (?ls ! k)]).
            sourceType l = ''daybook'' \<longrightarrow> grossWeight l = netWeight l"
        proof (intro ballI impI)
          fix l
          assume l: "l \<in> set (?ls[k := setLoanStatus now s (?ls ! k)])"
            and d: "sourceType l = ''daybook''"
          from l have "l = setLoanStatus now s (?ls ! k) \<or> l \<in> set ?ls"
            by (rule in_set_update)
          then show "grossWeight l = netWeight l"
          proof
            assume e: "l = setLoanStatus now s (?ls ! k)"
            with d have "sourceType (?ls ! k) = ''daybook''" by (simp add: setLoanStatus_keeps)
            with old e show ?thesis by (simp add: setLoanStatus_keeps)
          next
            assume "l \<in> set ?ls"
            with inv mem d show ?thesis unfolding weightsAgree_def by blast
          qed
        qed
        from weightsAgree_update [OF inv i this] inv Some k show ?thesis
          by (simp add: st update_valid [OF valid False])
      qed
    qed
  qed
qed

lemma reachable_weightsAgree: "reachable w \<Longrightarrow> weightsAgree w"
proof (induction rule: reachable.induct)
  case (initial w)
  then show ?case by (simp add: weightsAgree_def)
next
  case (environment w vs dbs fs)
  then show ?case by (simp add: weightsAgree_def)
next
  case (synced w aggr now)
  then show ?case by (simp add: weightsAgree_sync)
next
  case (queried w aggr now q)
  then show ?case by (simp add: weightsAgree_query)
next
  case (statusSet w now ident st)
  then show ?case by (simp add: weightsAgree_setStatus)
next
  case (swept w now)
  then show ?case by (simp add: weightsAgree_sweep)
next
  case (reset w)
  then show ?case by (simp add: weightsAgree_def deleteStockSummary_def)
qed

text \<open>
  C10. Every loan the ledger reader emits has \<open>grossWeight\<close> equal to \<open>netWeight\<close>. So has
  every loan of source type \<open>daybook\<close> in the snapshot a synchronisation persists, forced
  or automatic, and a status update or an overdue sweep changes neither weight nor the
  source type. Hence in every store that the operations produce from a store without
  snapshots, every loan of source type \<open>daybook\<close> in every snapshot has equal weights.
\<close>

theorem daybook_gross_equals_net:
  "(\<forall>l \<in> set (extractLoanDataFromDayBooks today w). grossWeight l = netWeight l) \<and>
   (\<not> fails w SummaryDeleteMany \<longrightarrow>
      (\<forall>s \<in> set (summaries (fst (createOrUpdateStockSummary aggr today w))).
         \<forall>l \<in> set (loans s). sourceType l = ''daybook'' \<longrightarrow> grossWeight l = netWeight l)) \<and>
   (summaries w = [] \<longrightarrow>
      (\<forall>s \<in> set (summaries (fst (getStockSummary aggr today w q))).
         \<forall>l \<in> set (loans s). sourceType l = ''daybook'' \<longrightarrow> grossWeight l = netWeight l)) \<and>
   (grossWeight l = netWeight l \<longrightarrow>
      grossWeight (setLoanStatus today st l) = netWeight (setLoanStatus today st l) \<and>
      grossWeight (markOverdue today l) = netWeight (markOverdue today l)) \<and>
   (reachable r \<longrightarrow>
      (\<forall>s \<in> set (summaries r). \<forall>l \<in> set (loans s).
         sourceType l = ''daybook'' \<longrightarrow> grossWeight l = netWeight l))"
proof -
  have e: "reachable r \<longrightarrow>
      (\<forall>s \<in> set (summaries r). \<forall>l \<in> set (loans s).
         sourceType l = ''daybook'' \<longrightarrow> grossWeight l = netWeight l)"
    using reachable_weightsAgree [of r] by (simp add: weightsAgree_def)
  have a: "\<forall>l \<in> set (extractLoanDataFromDayBooks today w). grossWeight l = netWeight l"
    by (simp add: extract_gross_net)
  have mk: "grossWeight x = netWeight x"
    if "x \<in> set (chooseLoans voucherToLoan today w)" and "sourceType x = ''daybook''" for x
    using chooseLoans_cases [OF that(1)] that(2)
    by (auto simp: voucherToLoan_sourceType extract_gross_net)
  have mkl: "grossWeight x = netWeight x"
    if "x \<in> set (chooseLoans voucherToLoanLazy today w)" and "sourceType x = ''daybook''" for x
    using chooseLoans_cases [OF that(1)] that(2)
    by (auto simp: voucherToLoanLazy_sourceType extract_gross_net)
  have b: "\<not> fails w SummaryDeleteMany \<longrightarrow>
      (\<forall>s \<in> set (summaries (fst (createOrUpdateStockSummary aggr today w))).
         \<forall>l \<in> set (loans s). sourceType l = ''daybook'' \<longrightarrow> grossWeight l = netWeight l)"
    using mk by (simp add: sync_summaries newStockSummary_def)
  have c: "summaries w = [] \<longrightarrow>
      (\<forall>s \<in> set (summaries (fst (getStockSummary aggr today w q))).
         \<forall>l \<in> set (loans s). sourceType l = ''daybook'' \<longrightarrow> grossWeight l = netWeight l)"
    using mkl by (simp add: lazy_summaries newStockSummary_def)
  have d: "grossWeight l = netWeight l \<longrightarrow>
      grossWeight (setLoanStatus today st l) = netWeight (setLoanStatus today st l) \<and>
      grossWeight (markOverdue today l) = netWeight (markOverdue today l)"
    by (simp add: setLoanStatus_keeps markOverdue_keeps)
  from a b c d e show ?thesis by blast
qed

theorem daybook_gross_equals_net_witness:
  "map grossWeight (extractLoanDataFromDayBooks 0 ledgerWorld) = [10, 10] \<and>
   map netWeight (extractLoanDataFromDayBooks 0 ledgerWorld) = [10, 10] \<and>
   map (map grossWeight \<circ> loans) (summaries (fst (createOrUpdateStockSummary exampleAggr 0 ledgerWorld)))
     = [[10, 10]] \<and>
   map (map netWeight \<circ> loans) (summaries (fst (createOrUpdateStockSummary exampleAggr 0 ledgerWorld)))
     = [[10, 10]] \<and>
   map (map sourceType \<circ> loans) (summaries (fst (createOrUpdateStockSummary exampleAggr 0 ledgerWorld)))
     = [[''daybook'', ''daybook'']] \<and>
   reachable (fst (createOrUpdateStockSummary exampleAggr 0 ledgerWorld)) \<and>
   weightsAgree (fst (createOrUpdateStockSummary exampleAggr 0 ledgerWorld))"
proof -
  have "summaries ledgerWorld = []"
    by (simp add: ledgerWorld_def emptyWorld_def)
  then have "reachable ledgerWorld" by (rule reachable.initial)
  then have r: "reachable (fst (createOrUpdateStockSummary exampleAggr 0 ledgerWorld))"
    by (rule reachable.synced)
  have wa: "weightsAgree (fst (createOrUpdateStockSummary exampleAggr 0 ledgerWorld))"
    using daybook_gross_equals_net [where r = "fst (createOrUpdateStockSummary exampleAggr 0 ledgerWorld)"
        and today = 0 and w = ledgerWorld and aggr = exampleAggr and q = noFilters
        and l = "closedLoan exampleDayBook exampleTransaction" and st = "''Closed''"] r
    unfolding weightsAgree_def by blast
  have g: "grossWeight (disbursedLoan 0 exampleDayBook exampleTransaction) = 10"
    "grossWeight (closedLoan exampleDayBook exampleTransaction) = 10"
    by (simp_all add: disbursedLoan_def closedLoan_def Let_def exampleTransaction_def
        blankTransaction_def)
  have f: "\<not> fails ledgerWorld SummaryDeleteMany" "\<not> fails ledgerWorld SummarySave"
    by (simp_all add: fails_def ledgerWorld_def emptyWorld_def)
  have s: "summaries (fst (createOrUpdateStockSummary exampleAggr 0 ledgerWorld)) =
      [newStockSummary 0 (extractLoanDataFromDayBooks 0 ledgerWorld)]"
    using f by (simp add: sync_summaries chooseLoans_def tryVouchers_def ledgerWorld_def
        emptyWorld_def)
  have vals: "map grossWeight (extractLoanDataFromDayBooks 0 ledgerWorld) = [10, 10] \<and>
   map netWeight (extractLoanDataFromDayBooks 0 ledgerWorld) = [10, 10] \<and>
   map (map grossWeight \<circ> loans) (summaries (fst (createOrUpdateStockSummary exampleAggr 0 ledgerWorld)))
     = [[10, 10]] \<and>
   map (map netWeight \<circ> loans) (summaries (fst (createOrUpdateStockSummary exampleAggr 0 ledgerWorld)))
     = [[10, 10]] \<and>
   map (map sourceType \<circ> loans) (summaries (fst (createOrUpdateStockSummary exampleAggr 0 ledgerWorld)))
     = [[''daybook'', ''daybook'']]"
    using f g
    by (simp add: s newStockSummary_def ledgerWorld_loans disbursedLoan_fields closedLoan_fields)
  from vals r wa show ?thesis by blast
qed

end
